theory Spec2Isabelle
  imports Complex_Main "HOL-Library.Sublist"
begin

section \<open>Python values used by the trader\<close>

text \<open>
  Embedding of \<^verbatim>\<open>src/worker/jupiter_trader.py\<close>.  Python floats are idealised as
  \<^typ>\<open>real\<close> (no rounding, no NaN), Python integers are \<^typ>\<open>int\<close>, strings are byte
  strings.  Parsed JSON is a value of \<open>json\<close>; JSON numbers are integers here (the
  aggregator sends amounts as decimal strings or integers).
\<close>

datatype json =
    JNull
  | JBool bool
  | JInt int
  | JStr string
  | JList "json list"
  | JDict "(string \<times> json) list"

text \<open>Python truthiness (\<^verbatim>\<open>if x\<close>, \<^verbatim>\<open>not x\<close>, \<^verbatim>\<open>x and y\<close>).\<close>

fun truthy :: "json \<Rightarrow> bool" where
  "truthy JNull = False"
| "truthy (JBool b) = b"
| "truthy (JInt n) = (n \<noteq> 0)"
| "truthy (JStr s) = (s \<noteq> [])"
| "truthy (JList xs) = (xs \<noteq> [])"
| "truthy (JDict kvs) = (kvs \<noteq> [])"

text \<open>The exceptions (subclasses of \<^verbatim>\<open>Exception\<close>) that the modelled code can meet.\<close>

datatype exn =
    NetworkError
  | HTTPStatusError int
  | JSONDecodeError
  | AttributeError
  | TypeError
  | ValueError
  | ConnectionError
  | TimeoutError
  | RPCError

text \<open>
  \<^verbatim>\<open>d.get(key, default)\<close>: the value of the key, the default when the key is absent,
  \<^verbatim>\<open>AttributeError\<close> when \<open>d\<close> is not a dict (lists, strings, numbers, booleans and
  \<^verbatim>\<open>None\<close> have no \<^verbatim>\<open>get\<close>).
\<close>

fun py_get :: "json \<Rightarrow> string \<Rightarrow> json \<Rightarrow> exn + json" where
  "py_get (JDict kvs) k d = Inr (case map_of kvs k of None \<Rightarrow> d | Some v \<Rightarrow> v)"
| "py_get _ k d = Inl AttributeError"

text \<open>
  \<^verbatim>\<open>int(x)\<close> on a parsed JSON value.  A string is accepted when, after stripping ASCII
  white space, it is an optional sign followed by decimal digits, single underscores
  allowed between digits; any other string raises \<^verbatim>\<open>ValueError\<close>.
\<close>

definition digit_of :: "char \<Rightarrow> nat option" where
  "digit_of c = (let n = (of_char c :: nat) in if 48 \<le> n \<and> n \<le> 57 then Some (n - 48) else None)"

definition is_space :: "char \<Rightarrow> bool" where
  "is_space c = ((of_char c :: nat) \<in> {9, 10, 11, 12, 13, 32})"

definition strip :: "string \<Rightarrow> string" where
  "strip s = rev (dropWhile is_space (rev (dropWhile is_space s)))"

fun digits_from :: "nat \<Rightarrow> string \<Rightarrow> nat option" where
  "digits_from acc [] = Some acc"
| "digits_from acc (c # cs) =
     (if c = CHR ''_'' then
        (case cs of
           [] \<Rightarrow> None
         | c' # cs' \<Rightarrow>
             (case digit_of c' of None \<Rightarrow> None | Some d \<Rightarrow> digits_from (acc * 10 + d) cs'))
      else
        (case digit_of c of None \<Rightarrow> None | Some d \<Rightarrow> digits_from (acc * 10 + d) cs))"

definition parse_digits :: "string \<Rightarrow> nat option" where
  "parse_digits s =
     (case s of
        [] \<Rightarrow> None
      | c # cs \<Rightarrow> (case digit_of c of None \<Rightarrow> None | Some d \<Rightarrow> digits_from d cs))"

definition int_of_str :: "string \<Rightarrow> int option" where
  "int_of_str s =
     (case strip s of
        [] \<Rightarrow> None
      | c # cs \<Rightarrow>
          if c = CHR ''-'' then map_option (\<lambda>n. - int n) (parse_digits cs)
          else if c = CHR ''+'' then map_option int (parse_digits cs)
          else map_option int (parse_digits (c # cs)))"

fun py_int :: "json \<Rightarrow> exn + int" where
  "py_int (JInt n) = Inr n"
| "py_int (JBool b) = Inr (if b then 1 else 0)"
| "py_int (JStr s) = (case int_of_str s of None \<Rightarrow> Inl ValueError | Some n \<Rightarrow> Inr n)"
| "py_int _ = Inl TypeError"

text \<open>\<^verbatim>\<open>str.lower()\<close> on ASCII letters, and \<^verbatim>\<open>str(x)\<close>.  The text Python prints for a value
  that is not a string is the parameter \<open>repr\<close>.\<close>

definition lower_char :: "char \<Rightarrow> char" where
  "lower_char c =
     (let n = (of_char c :: nat) in if 65 \<le> n \<and> n \<le> 90 then char_of (n + 32) else c)"

definition lower :: "string \<Rightarrow> string" where
  "lower s = map lower_char s"

fun py_str :: "(json \<Rightarrow> string) \<Rightarrow> json \<Rightarrow> string" where
  "py_str repr (JStr s) = s"
| "py_str repr v = repr v"

section \<open>External calls, as a trace\<close>

text \<open>
  Every operation returns, next to its result, the list of external calls it made, in
  order.  The reason of an auto-sell is the format string of the source with the
  number it prints.
\<close>

datatype sell_reason =
    StopLossHit real
  | TrailingStopDropped real
  | TP1Hit real
  | TP2Hit real
  | TimeBasedTriggered

datatype event =
    QuoteRequest string string int int
  | Sleep nat
  | SwapRequest json
  | SendTransaction
  | ConfirmTransaction string
  | UpdatePositionPrice "string option" real "real option"
  | TriggerAutoSell "string option" nat sell_reason
  | LogMonitorError exn

section \<open>Quote service: \<^verbatim>\<open>get_quote\<close>\<close>

record response =
  status_code :: int
  body_text :: string
  json_body :: "json option"

datatype http_outcome = HttpRaised exn | HttpResponse response

text \<open>\<^verbatim>\<open>response.raise_for_status()\<close> of httpx raises unless the status is 2xx.\<close>

definition raise_for_status :: "response \<Rightarrow> exn option" where
  "raise_for_status r =
     (if 200 \<le> status_code r \<and> status_code r < 300 then None
      else Some (HTTPStatusError (status_code r)))"

text \<open>\<^verbatim>\<open>response.json()\<close>: \<open>None\<close> in \<open>json_body\<close> is a body that does not parse.\<close>

definition response_json :: "response \<Rightarrow> exn + json" where
  "response_json r = (case json_body r of None \<Rightarrow> Inl JSONDecodeError | Some v \<Rightarrow> Inr v)"

text \<open>Line 272: the test that recognises a no-route answer in the error message.\<close>

definition no_route_message :: "string \<Rightarrow> bool" where
  "no_route_message msg \<longleftrightarrow>
     sublist ''No route found'' msg \<or> sublist ''could not find'' (lower msg)"

text \<open>
  One pass through the body of the retry loop (lines 264 to 286):
  \<^item> \<open>ReturnNone\<close>: the \<^verbatim>\<open>return None\<close> of line 274;
  \<^item> \<open>ReturnQuote q\<close>: the \<^verbatim>\<open>return quote\<close> of line 280;
  \<^item> \<open>FallThrough\<close>: the \<^verbatim>\<open>try\<close> body ended without returning (line 279 false);
  \<^item> \<open>Caught e\<close>: the \<^verbatim>\<open>except Exception\<close> of line 282 ran.
\<close>

datatype attempt_result = ReturnNone | ReturnQuote json | FallThrough | Caught exn

definition accept_quote :: "response \<Rightarrow> attempt_result" where
  "accept_quote r =
     (case raise_for_status r of
        Some e \<Rightarrow> Caught e
      | None \<Rightarrow>
          (case response_json r of
             Inl e \<Rightarrow> Caught e
           | Inr quote \<Rightarrow>
               if \<not> truthy quote then FallThrough
               else
                 (case py_get quote ''outAmount'' JNull of
                    Inl e \<Rightarrow> Caught e
                  | Inr out \<Rightarrow> if truthy out then ReturnQuote quote else FallThrough)))"

definition quote_attempt :: "(json \<Rightarrow> string) \<Rightarrow> http_outcome \<Rightarrow> attempt_result" where
  "quote_attempt repr outcome =
     (case outcome of
        HttpRaised e \<Rightarrow> Caught e
      | HttpResponse r \<Rightarrow>
          if status_code r = 400 then
            (case response_json r of
               Inl e \<Rightarrow> Caught e
             | Inr error_data \<Rightarrow>
                 (case py_get error_data ''error'' (JStr ''Unknown error'') of
                    Inl e \<Rightarrow> Caught e
                  | Inr error_msg \<Rightarrow>
                      if no_route_message (py_str repr error_msg) then ReturnNone
                      else accept_quote r))
          else accept_quote r)"

text \<open>
  The loop \<^verbatim>\<open>for attempt in range(retries)\<close>: \<open>attempt\<close> is the loop variable, the last
  argument counts the iterations left.  \<open>http k\<close> is what the \<open>k\<close>-th request of this call
  meets.  A caught exception sleeps one second unless it was the last attempt.
\<close>

fun quote_loop ::
  "(json \<Rightarrow> string) \<Rightarrow> (nat \<Rightarrow> http_outcome) \<Rightarrow> event \<Rightarrow> int \<Rightarrow> nat \<Rightarrow> nat
     \<Rightarrow> json option \<times> event list" where
  "quote_loop repr http req retries attempt 0 = (None, [])"
| "quote_loop repr http req retries attempt (Suc n) =
     (case quote_attempt repr (http attempt) of
        ReturnNone \<Rightarrow> (None, [req])
      | ReturnQuote q \<Rightarrow> (Some q, [req])
      | FallThrough \<Rightarrow>
          (let (res, tr) = quote_loop repr http req retries (Suc attempt) n
           in (res, req # tr))
      | Caught e \<Rightarrow>
          (let (res, tr) = quote_loop repr http req retries (Suc attempt) n
           in (res, req # (if int attempt < retries - 1 then [Sleep 1] else []) @ tr)))"

definition get_quote ::
  "(json \<Rightarrow> string) \<Rightarrow> (nat \<Rightarrow> http_outcome) \<Rightarrow> string \<Rightarrow> string \<Rightarrow> int \<Rightarrow> int \<Rightarrow> int
     \<Rightarrow> json option \<times> event list" where
  "get_quote repr http input_mint output_mint amount slippage_bps retries =
     quote_loop repr http (QuoteRequest input_mint output_mint amount slippage_bps)
       retries 0 (nat retries)"

definition is_quote_request :: "event \<Rightarrow> bool" where
  "is_quote_request e = (case e of QuoteRequest _ _ _ _ \<Rightarrow> True | _ \<Rightarrow> False)"

definition is_sleep :: "event \<Rightarrow> bool" where
  "is_sleep e = (case e of Sleep _ \<Rightarrow> True | _ \<Rightarrow> False)"

definition attempts_made :: "event list \<Rightarrow> nat" where
  "attempts_made tr = length (filter is_quote_request tr)"


text \<open>\<^verbatim>\<open>int(quote.get("outAmount", 0))\<close>, as lines 384, 422, 467 and 630 compute it.\<close>

definition out_amount :: "json \<Rightarrow> exn + int" where
  "out_amount quote =
     (case py_get quote ''outAmount'' (JInt 0) of Inl e \<Rightarrow> Inl e | Inr v \<Rightarrow> py_int v)"

section \<open>Chain client\<close>

text \<open>
  The world outside the process is a record of what each external call answers.  The
  calls whose source catches every exception (\<^verbatim>\<open>get_token_price_sol\<close>, the body of
  \<^verbatim>\<open>get_token_balance\<close> after the connection, the backend client's
  \<^verbatim>\<open>update_position_price\<close> and \<^verbatim>\<open>trigger_auto_sell\<close>) appear with the value they
  return.
\<close>

datatype datetime = Naive int | Aware int

record env =
  rpc_connected :: bool
  endpoint_alive :: "string \<Rightarrow> bool"
  balance_read :: "exn + int"
  token_read :: "int option"
  price_api :: "real option"
  quote_http :: "nat \<Rightarrow> http_outcome"
  str_repr :: "json \<Rightarrow> string"
  swap_http :: http_outcome
  decode_and_sign :: "json \<Rightarrow> exn option"
  send_result :: "exn + string"
  confirm_result :: "exn option"
  now :: int
  fromisoformat :: "string \<Rightarrow> datetime option"

definition SOL_MINT :: string where
  "SOL_MINT = ''So11111111111111111111111111111111111111112''"

definition RPC_ENDPOINTS :: "string list" where
  "RPC_ENDPOINTS =
     [''https://api.mainnet-beta.solana.com'',
      ''https://solana-mainnet.g.alchemy.com/v2/demo'',
      ''https://rpc.ankr.com/solana'']"

definition POSITION_CHECK_INTERVAL :: nat where
  "POSITION_CHECK_INTERVAL = 5"

text \<open>\<^verbatim>\<open>connect_rpc\<close>: the first endpoint that answers, \<^verbatim>\<open>ConnectionError\<close> when none does.\<close>

definition connect_rpc :: "env \<Rightarrow> exn option" where
  "connect_rpc w =
     (case find (endpoint_alive w) RPC_ENDPOINTS of
        Some endpoint \<Rightarrow> None
      | None \<Rightarrow> Some ConnectionError)"

text \<open>\<^verbatim>\<open>if not self.rpc: await self.connect_rpc()\<close>.\<close>

definition ensure_rpc :: "env \<Rightarrow> exn option" where
  "ensure_rpc w = (if rpc_connected w then None else connect_rpc w)"

definition get_balance :: "env \<Rightarrow> exn + real" where
  "get_balance w =
     (case ensure_rpc w of
        Some e \<Rightarrow> Inl e
      | None \<Rightarrow>
          (case balance_read w of
             Inl e \<Rightarrow> Inl e
           | Inr lamports \<Rightarrow> Inr (real_of_int lamports / 1000000000)))"

definition get_token_balance :: "env \<Rightarrow> exn + int option" where
  "get_token_balance w =
     (case ensure_rpc w of Some e \<Rightarrow> Inl e | None \<Rightarrow> Inr (token_read w))"

section \<open>Swap executor\<close>

datatype error_text =
    Message string
  | ExceptionText exn
  | InsufficientBalance real

record trade_result =
  success :: bool
  signature :: "string option"
  error :: "error_text option"
  expected_output :: "int option"
  tokens_received :: "int option"

definition failure :: "error_text \<Rightarrow> trade_result" where
  "failure msg =
     \<lparr>success = False, signature = None, error = Some msg,
      expected_output = None, tokens_received = None\<rparr>"

text \<open>
  Lines 319 to 368 of \<^verbatim>\<open>execute_swap\<close>, up to and including the submission:
  \<open>Inl e\<close> is an exception raised there, \<open>Inr (Inl r)\<close> one of the two early returns,
  \<open>Inr (Inr sig)\<close> the signature of the transaction that was sent.
\<close>

definition submit_swap :: "env \<Rightarrow> json \<Rightarrow> (exn + (trade_result + string)) \<times> event list" where
  "submit_swap w quote =
     (case ensure_rpc w of
        Some e \<Rightarrow> (Inl e, [])
      | None \<Rightarrow>
          (case swap_http w of
             HttpRaised e \<Rightarrow> (Inl e, [SwapRequest quote])
           | HttpResponse r \<Rightarrow>
               if status_code r \<noteq> 200 then
                 (Inr (Inl (failure (Message (''Jupiter swap API error: '' @ take 100 (body_text r))))),
                  [SwapRequest quote])
               else
                 (case response_json r of
                    Inl e \<Rightarrow> (Inl e, [SwapRequest quote])
                  | Inr swap_result \<Rightarrow>
                      (case py_get swap_result ''swapTransaction'' JNull of
                         Inl e \<Rightarrow> (Inl e, [SwapRequest quote])
                       | Inr swap_tx \<Rightarrow>
                           if \<not> truthy swap_tx then
                             (Inr (Inl (failure (Message ''No swap transaction returned from Jupiter''))),
                              [SwapRequest quote])
                           else
                             (case decode_and_sign w swap_tx of
                                Some e \<Rightarrow> (Inl e, [SwapRequest quote])
                              | None \<Rightarrow>
                                  (case send_result w of
                                     Inl e \<Rightarrow> (Inl e, [SwapRequest quote, SendTransaction])
                                   | Inr tx_signature \<Rightarrow>
                                       (Inr (Inr tx_signature),
                                        [SwapRequest quote, SendTransaction])))))))"

text \<open>
  Lines 371 to 386: the confirmation, whose \<^verbatim>\<open>asyncio.TimeoutError\<close> alone is caught by
  the inner handler, and the result record.
\<close>

definition confirm_swap :: "env \<Rightarrow> json \<Rightarrow> string \<Rightarrow> exn + trade_result" where
  "confirm_swap w quote tx_signature =
     (case confirm_result w of
        Some e \<Rightarrow>
          if e = TimeoutError then
            (case out_amount quote of
               Inl e' \<Rightarrow> Inl e'
             | Inr n \<Rightarrow>
                 Inr \<lparr>success = True, signature = Some tx_signature, error = None,
                      expected_output = Some n, tokens_received = Some n\<rparr>)
          else Inl e
      | None \<Rightarrow>
          (case out_amount quote of
             Inl e' \<Rightarrow> Inl e'
           | Inr n \<Rightarrow>
               Inr \<lparr>success = True, signature = Some tx_signature, error = None,
                    expected_output = Some n, tokens_received = Some n\<rparr>))"

text \<open>The body of the outer \<^verbatim>\<open>try\<close> of \<^verbatim>\<open>execute_swap\<close>.\<close>

definition swap_body :: "env \<Rightarrow> json \<Rightarrow> (exn + trade_result) \<times> event list" where
  "swap_body w quote =
     (case submit_swap w quote of
        (Inl e, tr) \<Rightarrow> (Inl e, tr)
      | (Inr (Inl r), tr) \<Rightarrow> (Inr r, tr)
      | (Inr (Inr tx_signature), tr) \<Rightarrow>
          (confirm_swap w quote tx_signature, tr @ [ConfirmTransaction tx_signature]))"

text \<open>
  \<^verbatim>\<open>execute_swap\<close>: the handler of line 388 turns every exception of the body into a
  failed result.  \<open>Inl\<close> in the result would be an exception that reaches the caller.
\<close>

definition execute_swap :: "env \<Rightarrow> json \<Rightarrow> (exn + trade_result) \<times> event list" where
  "execute_swap w quote =
     (case swap_body w quote of
        (Inl e, tr) \<Rightarrow> (Inr (failure (ExceptionText e)), tr)
      | (Inr r, tr) \<Rightarrow> (Inr r, tr))"

text \<open>\<^verbatim>\<open>int(x)\<close> on a float truncates towards zero.\<close>

definition py_trunc :: "real \<Rightarrow> int" where
  "py_trunc x = (if 0 \<le> x then \<lfloor>x\<rfloor> else \<lceil>x\<rceil>)"

definition buy_token :: "env \<Rightarrow> string \<Rightarrow> real \<Rightarrow> int \<Rightarrow> (exn + trade_result) \<times> event list" where
  "buy_token w contract_address amount_sol slippage_bps =
     (let lamports = py_trunc (amount_sol * 1000000000) in
      case get_balance w of
        Inl e \<Rightarrow> (Inl e, [])
      | Inr balance \<Rightarrow>
          if balance < amount_sol + 0.01 then (Inr (failure (InsufficientBalance balance)), [])
          else
            (case get_quote (str_repr w) (quote_http w) SOL_MINT contract_address lamports
                    slippage_bps 3 of
               (None, tr) \<Rightarrow> (Inr (failure (Message ''Failed to get Jupiter quote'')), tr)
             | (Some quote, tr) \<Rightarrow>
                 if \<not> truthy quote then
                   (Inr (failure (Message ''Failed to get Jupiter quote'')), tr)
                 else
                   (case out_amount quote of
                      Inl e \<Rightarrow> (Inl e, tr)
                    | Inr expected_tokens \<Rightarrow>
                        (let (result, tr') = execute_swap w quote in (result, tr @ tr')))))"

definition sell_token :: "env \<Rightarrow> string \<Rightarrow> int \<Rightarrow> int \<Rightarrow> (exn + trade_result) \<times> event list" where
  "sell_token w contract_address percentage slippage_bps =
     (case ensure_rpc w of
        Some e \<Rightarrow> (Inl e, [])
      | None \<Rightarrow>
          (case get_token_balance w of
             Inl e \<Rightarrow> (Inl e, [])
           | Inr None \<Rightarrow> (Inr (failure (Message ''No token balance found'')), [])
           | Inr (Some token_amount) \<Rightarrow>
               if token_amount \<le> 0 then (Inr (failure (Message ''No token balance found'')), [])
               else
                 (let sell_amount = (token_amount * percentage) div 100 in
                  if sell_amount \<le> 0 then (Inr (failure (Message ''No tokens to sell'')), [])
                  else
                    (case get_quote (str_repr w) (quote_http w) contract_address SOL_MINT
                            sell_amount slippage_bps 3 of
                       (None, tr) \<Rightarrow>
                         (Inr (failure (Message ''Failed to get Jupiter quote for sell'')), tr)
                     | (Some quote, tr) \<Rightarrow>
                         if \<not> truthy quote then
                           (Inr (failure (Message ''Failed to get Jupiter quote for sell'')), tr)
                         else
                           (case out_amount quote of
                              Inl e \<Rightarrow> (Inl e, tr)
                            | Inr expected \<Rightarrow>
                                (let (result, tr') = execute_swap w quote
                                 in (result, tr @ tr')))))))"


section \<open>Channel policy resolver\<close>

record channel_config =
  priority :: string
  allocation_sol :: real
  stop_loss_pct :: real
  take_profit_1_pct :: real
  take_profit_2_pct :: real
  trailing_stop_enabled :: bool
  trailing_stop_pct :: real
  time_based_sell_enabled :: bool
  time_based_sell_minutes :: "int option"
  auto_sell_enabled :: bool

text \<open>The defaults of the dataclass \<^verbatim>\<open>ChannelConfig\<close>.\<close>

definition ChannelConfig :: channel_config where
  "ChannelConfig =
     \<lparr>priority = ''medium'', allocation_sol = 0.25, stop_loss_pct = -30,
      take_profit_1_pct = 100, take_profit_2_pct = 200, trailing_stop_enabled = False,
      trailing_stop_pct = 15, time_based_sell_enabled = False,
      time_based_sell_minutes = None, auto_sell_enabled = True\<rparr>"

definition CHANNEL_CONFIGS :: "(string \<times> channel_config) list" where
  "CHANNEL_CONFIGS =
     [(''memecoin-alpha'',
         \<lparr>priority = ''high'', allocation_sol = 0.5, stop_loss_pct = -25,
          take_profit_1_pct = 100, take_profit_2_pct = 200, trailing_stop_enabled = True,
          trailing_stop_pct = 15, time_based_sell_enabled = False,
          time_based_sell_minutes = None, auto_sell_enabled = True\<rparr>),
      (''memecoin-chat'',
         \<lparr>priority = ''low'', allocation_sol = 0.1, stop_loss_pct = -15,
          take_profit_1_pct = 50, take_profit_2_pct = 100, trailing_stop_enabled = True,
          trailing_stop_pct = 10, time_based_sell_enabled = True,
          time_based_sell_minutes = Some 30, auto_sell_enabled = True\<rparr>),
      (''under-100k'',
         \<lparr>priority = ''low'', allocation_sol = 0.1, stop_loss_pct = -20,
          take_profit_1_pct = 75, take_profit_2_pct = 150, trailing_stop_enabled = True,
          trailing_stop_pct = 12, time_based_sell_enabled = True,
          time_based_sell_minutes = Some 45, auto_sell_enabled = True\<rparr>)]"

definition get_channel_config :: "string \<Rightarrow> channel_config" where
  "get_channel_config channel_name =
     (let channel_lower = lower channel_name in
      case find (\<lambda>(pattern, config). sublist pattern channel_lower) CHANNEL_CONFIGS of
        Some (pattern, config) \<Rightarrow> config
      | None \<Rightarrow> ChannelConfig)"

section \<open>Position monitor\<close>

text \<open>
  A position is the dict the backend sends.  A key read with \<^verbatim>\<open>pos.get(key)\<close> is an
  \<open>option\<close> (\<open>None\<close> for an absent key and for \<^verbatim>\<open>null\<close> alike); a key read with a
  default, \<^verbatim>\<open>pos.get(key, default)\<close>, is a \<open>field\<close>, since the default replaces an absent
  key only and a stored \<^verbatim>\<open>null\<close> comes back as \<^verbatim>\<open>None\<close>.
\<close>

datatype 'a field = Missing | Null | Value 'a

fun get_or :: "'a field \<Rightarrow> 'a \<Rightarrow> 'a option" where
  "get_or Missing d = Some d"
| "get_or Null d = None"
| "get_or (Value v) d = Some v"

record position =
  pos_id :: "string option"
  pos_contract_address :: "string option"
  pos_entry_price :: "real option"
  pos_status :: "string option"
  pos_channel_name :: "string field"
  pos_highest_price :: "real option"
  pos_auto_sell_enabled :: "bool field"
  pos_trailing_stop_enabled :: "bool field"
  pos_trailing_stop_pct :: "real field"
  pos_time_based_sell_at :: "string option"
  pos_stop_loss_pct :: "real field"
  pos_take_profit_1_pct :: "real field"
  pos_take_profit_2_pct :: "real field"

datatype action = stop_loss | trailing_stop | take_profit_1 | take_profit_2 | time_based

text \<open>The three variables \<^verbatim>\<open>action_needed\<close>, \<^verbatim>\<open>sell_percentage\<close> and \<^verbatim>\<open>reason\<close>, which the
  source sets together; \<open>None\<close> is \<^verbatim>\<open>action_needed = None\<close>.\<close>

record trigger =
  action_needed :: action
  sell_percentage :: nat
  reason :: sell_reason

text \<open>Line 615: \<^verbatim>\<open>not auto_sell_enabled\<close>, where the value read defaults to \<^verbatim>\<open>True\<close>.\<close>

definition auto_sell_off :: "position \<Rightarrow> bool" where
  "auto_sell_off pos =
     (case get_or (pos_auto_sell_enabled pos) True of None \<Rightarrow> True | Some b \<Rightarrow> \<not> b)"

text \<open>Lines 604 and 619: \<^verbatim>\<open>None.lower()\<close> raises when the channel name is \<^verbatim>\<open>null\<close>.\<close>

definition position_config :: "position \<Rightarrow> exn + channel_config" where
  "position_config pos =
     (case get_or (pos_channel_name pos) [] of
        None \<Rightarrow> Inl AttributeError
      | Some channel_name \<Rightarrow> Inr (get_channel_config channel_name))"

text \<open>Lines 622 to 632: the price, with the fallback that quotes the whole balance.\<close>

definition current_price_of :: "env \<Rightarrow> string \<Rightarrow> (exn + real option) \<times> event list" where
  "current_price_of w contract_address =
     (case price_api w of
        Some p \<Rightarrow> (Inr (Some p), [])
      | None \<Rightarrow>
          (case get_token_balance w of
             Inl e \<Rightarrow> (Inl e, [])
           | Inr None \<Rightarrow> (Inr None, [])
           | Inr (Some token_balance) \<Rightarrow>
               if token_balance \<noteq> 0 \<and> token_balance > 0 then
                 (case get_quote (str_repr w) (quote_http w) contract_address SOL_MINT
                         token_balance 100 3 of
                    (None, tr) \<Rightarrow> (Inr None, tr)
                  | (Some quote, tr) \<Rightarrow>
                      if \<not> truthy quote then (Inr None, tr)
                      else
                        (case out_amount quote of
                           Inl e \<Rightarrow> (Inl e, tr)
                         | Inr out \<Rightarrow>
                             (Inr (Some ((real_of_int out / 1000000000)
                                          / (real_of_int token_balance / 1000000))), tr)))
               else (Inr None, [])))"

text \<open>Line 638.\<close>

definition pnl_pct :: "real \<Rightarrow> real \<Rightarrow> real" where
  "pnl_pct current_price entry_price =
     (if entry_price > 0 then ((current_price - entry_price) / entry_price) * 100 else 0)"

text \<open>Lines 641 to 643.\<close>

definition new_highest :: "real option \<Rightarrow> real \<Rightarrow> real" where
  "new_highest highest_price current_price =
     (case highest_price of
        None \<Rightarrow> current_price
      | Some h \<Rightarrow> if current_price > h then current_price else h)"

text \<open>Line 660: \<^verbatim>\<open>trailing_stop_pct or config.trailing_stop_pct\<close>.\<close>

definition trailing_pct :: "position \<Rightarrow> channel_config \<Rightarrow> real" where
  "trailing_pct pos config =
     (case get_or (pos_trailing_stop_pct pos) 15 of
        None \<Rightarrow> trailing_stop_pct config
      | Some t \<Rightarrow> if t \<noteq> 0 then t else trailing_stop_pct config)"

text \<open>Line 661.\<close>

definition drop_from_high :: "real \<Rightarrow> real \<Rightarrow> real" where
  "drop_from_high highest current_price =
     (if highest > 0 then ((highest - current_price) / highest) * 100 else 0)"

text \<open>Line 659: the condition of the second branch of the chain.\<close>

definition trailing_branch :: "position \<Rightarrow> real \<Rightarrow> real \<Rightarrow> bool" where
  "trailing_branch pos highest pnl \<longleftrightarrow>
     (case get_or (pos_trailing_stop_enabled pos) False of None \<Rightarrow> False | Some b \<Rightarrow> b) \<and>
     highest \<noteq> 0 \<and> pnl > 0"

text \<open>
  Lines 646 to 685: the chain \<^verbatim>\<open>if\<close> / \<^verbatim>\<open>elif\<close> / \<^verbatim>\<open>elif\<close> / \<^verbatim>\<open>elif\<close>.  Comparing a number with
  \<^verbatim>\<open>None\<close> raises \<^verbatim>\<open>TypeError\<close>.
\<close>

definition price_triggers ::
  "position \<Rightarrow> channel_config \<Rightarrow> real \<Rightarrow> real \<Rightarrow> exn + trigger option" where
  "price_triggers pos config entry_price current_price =
     (let pnl = pnl_pct current_price entry_price;
          highest = new_highest (pos_highest_price pos) current_price
      in
      case get_or (pos_stop_loss_pct pos) (stop_loss_pct config) of
        None \<Rightarrow> Inl TypeError
      | Some sl \<Rightarrow>
          if pnl \<le> sl then
            Inr (Some \<lparr>action_needed = stop_loss, sell_percentage = 100,
                       reason = StopLossHit pnl\<rparr>)
          else if trailing_branch pos highest pnl then
            (if drop_from_high highest current_price \<ge> trailing_pct pos config then
               Inr (Some \<lparr>action_needed = trailing_stop, sell_percentage = 100,
                          reason = TrailingStopDropped (drop_from_high highest current_price)\<rparr>)
             else Inr None)
          else if pos_status pos = Some ''bought'' then
            (case get_or (pos_take_profit_1_pct pos) (take_profit_1_pct config) of
               None \<Rightarrow> Inl TypeError
             | Some tp1 \<Rightarrow>
                 if pnl \<ge> tp1 then
                   Inr (Some \<lparr>action_needed = take_profit_1, sell_percentage = 50,
                              reason = TP1Hit pnl\<rparr>)
                 else Inr None)
          else if pos_status pos = Some ''partial_tp1'' then
            (case get_or (pos_take_profit_2_pct pos) (take_profit_2_pct config) of
               None \<Rightarrow> Inl TypeError
             | Some tp2 \<Rightarrow>
                 if pnl \<ge> tp2 then
                   Inr (Some \<lparr>action_needed = take_profit_2, sell_percentage = 100,
                              reason = TP2Hit pnl\<rparr>)
                 else Inr None)
          else Inr None)"

text \<open>\<^verbatim>\<open>time_based_sell_at.replace('Z', '+00:00')\<close>.\<close>

definition replace_Z :: "string \<Rightarrow> string" where
  "replace_Z s = concat (map (\<lambda>c. if c = CHR ''Z'' then ''+00:00'' else [c]) s)"

text \<open>
  Lines 688 to 697.  The handler of line 696 swallows a timestamp that does not parse
  and the \<^verbatim>\<open>TypeError\<close> of comparing the aware \<^verbatim>\<open>now\<close> with a naive time.
\<close>

definition time_based_check :: "env \<Rightarrow> position \<Rightarrow> trigger option \<Rightarrow> trigger option" where
  "time_based_check w pos fired =
     (case fired of
        Some t \<Rightarrow> Some t
      | None \<Rightarrow>
          (case pos_time_based_sell_at pos of
             None \<Rightarrow> None
           | Some s \<Rightarrow>
               if s = [] then None
               else
                 (case fromisoformat w (replace_Z s) of
                    Some (Aware sell_time) \<Rightarrow>
                      if now w \<ge> sell_time then
                        Some \<lparr>action_needed = time_based, sell_percentage = 100,
                              reason = TimeBasedTriggered\<rparr>
                      else None
                  | _ \<Rightarrow> None)))"

text \<open>
  The body of the \<^verbatim>\<open>for\<close> loop (lines 600 to 715) for one position: the external calls
  it makes, and the exception that leaves it, if any.
\<close>

definition evaluate_position ::
  "env \<Rightarrow> position \<Rightarrow> string \<Rightarrow> real \<Rightarrow> event list \<times> exn option" where
  "evaluate_position w pos contract_address entry_price =
     (case position_config pos of
        Inl e \<Rightarrow> ([], Some e)
      | Inr config \<Rightarrow>
          (case current_price_of w contract_address of
             (Inl e, tr) \<Rightarrow> (tr, Some e)
           | (Inr None, tr) \<Rightarrow> (tr, None)
           | (Inr (Some current_price), tr) \<Rightarrow>
               (case price_triggers pos config entry_price current_price of
                  Inl e \<Rightarrow> (tr, Some e)
                | Inr fired \<Rightarrow>
                    (tr @
                     [UpdatePositionPrice (pos_id pos) current_price
                        (Some (new_highest (pos_highest_price pos) current_price))] @
                     (case time_based_check w pos fired of
                        None \<Rightarrow> []
                      | Some t \<Rightarrow>
                          [TriggerAutoSell (pos_id pos) (sell_percentage t) (reason t)]),
                     None))))"

definition process_position :: "env \<Rightarrow> position \<Rightarrow> event list \<times> exn option" where
  "process_position w pos =
     (case pos_contract_address pos of
        None \<Rightarrow> ([], None)
      | Some contract_address \<Rightarrow>
          if contract_address = [] then ([], None)
          else
            (case pos_entry_price pos of
               None \<Rightarrow> ([], None)
             | Some entry_price \<Rightarrow>
                 if entry_price = 0 then ([], None)
                 else if auto_sell_off pos then ([], None)
                 else evaluate_position w pos contract_address entry_price))"

text \<open>
  The \<^verbatim>\<open>for\<close> loop over the positions, each met with its own state of the world: an
  exception of one position leaves the loop.
\<close>

fun monitor_batch :: "(env \<times> position) list \<Rightarrow> event list \<times> exn option" where
  "monitor_batch [] = ([], None)"
| "monitor_batch ((w, pos) # rest) =
     (case process_position w pos of
        (tr, Some e) \<Rightarrow> (tr, Some e)
      | (tr, None) \<Rightarrow> (let (tr', r) = monitor_batch rest in (tr @ tr', r)))"

text \<open>One pass of the \<^verbatim>\<open>while\<close> loop (lines 596 to 721), with the handler of line 719.\<close>

definition monitor_cycle :: "(env \<times> position) list \<Rightarrow> event list" where
  "monitor_cycle positions =
     (case monitor_batch positions of
        (tr, None) \<Rightarrow> tr @ [Sleep POSITION_CHECK_INTERVAL]
      | (tr, Some e) \<Rightarrow> tr @ [LogMonitorError e, Sleep 30])"

section \<open>Statements about the quote service\<close>

text \<open>
  What the retry loop treats as the structured no-route answer: status 400, a JSON object,
  and an \<^verbatim>\<open>error\<close> message (\<^verbatim>\<open>'Unknown error'\<close> when absent) that mentions it.
\<close>

definition no_liquidity_response :: "(json \<Rightarrow> string) \<Rightarrow> http_outcome \<Rightarrow> bool" where
  "no_liquidity_response repr outcome =
     (case outcome of
        HttpRaised e \<Rightarrow> False
      | HttpResponse r \<Rightarrow>
          status_code r = 400 \<and>
          (case json_body r of
             None \<Rightarrow> False
           | Some (JDict kvs) \<Rightarrow>
               no_route_message
                 (py_str repr (case map_of kvs ''error'' of None \<Rightarrow> JStr ''Unknown error'' | Some m \<Rightarrow> m))
           | Some _ \<Rightarrow> False))"

text \<open>An HTTP or network error: the request raised, or the status is not 2xx and the
  answer is not the no-route one.\<close>

definition transient_error :: "(json \<Rightarrow> string) \<Rightarrow> http_outcome \<Rightarrow> bool" where
  "transient_error repr outcome =
     (case outcome of
        HttpRaised e \<Rightarrow> True
      | HttpResponse r \<Rightarrow>
          \<not> (200 \<le> status_code r \<and> status_code r < 300) \<and> \<not> no_liquidity_response repr outcome)"

text \<open>Attempt \<open>k\<close> is reached when no earlier attempt returned.\<close>

definition reached :: "(json \<Rightarrow> string) \<Rightarrow> (nat \<Rightarrow> http_outcome) \<Rightarrow> nat \<Rightarrow> bool" where
  "reached repr http k =
     list_all (\<lambda>j. case quote_attempt repr (http j) of
                     FallThrough \<Rightarrow> True | Caught e \<Rightarrow> True | _ \<Rightarrow> False) [0..<k]"

definition all_transient :: "(json \<Rightarrow> string) \<Rightarrow> (nat \<Rightarrow> http_outcome) \<Rightarrow> nat \<Rightarrow> bool" where
  "all_transient repr http n = list_all (\<lambda>j. transient_error repr (http j)) [0..<n]"

text \<open>The output amount of a quote, read as every caller reads it, is positive.\<close>

definition positive_out_amount :: "json \<Rightarrow> bool" where
  "positive_out_amount quote = (case out_amount quote of Inl e \<Rightarrow> False | Inr n \<Rightarrow> 0 < n)"

text \<open>The test of line 279: the quote is an object whose \<^verbatim>\<open>outAmount\<close> is truthy.\<close>

definition truthy_out_amount :: "json \<Rightarrow> bool" where
  "truthy_out_amount quote =
     (case quote of
        JDict kvs \<Rightarrow> (case map_of kvs ''outAmount'' of None \<Rightarrow> False | Some v \<Rightarrow> truthy v)
      | _ \<Rightarrow> False)"

text \<open>\<open>n\<close> requests with a sleep of one second between two of them.\<close>

definition retry_trace :: "event \<Rightarrow> nat \<Rightarrow> event list" where
  "retry_trace req n = (if n = 0 then [] else concat (replicate (n - 1) [req, Sleep 1]) @ [req])"

text \<open>Sample answers of the aggregator.\<close>

definition zero_quote :: json where
  "zero_quote = JDict [(''inputMint'', JStr ''So11111111111111111111111111111111111111112''),
                       (''outAmount'', JStr ''0'')]"

definition no_route_reply :: http_outcome where
  "no_route_reply =
     HttpResponse \<lparr>status_code = 400, body_text = [],
       json_body = Some (JDict [(''error'', JStr ''No route found'')])\<rparr>"

definition flaky_then_no_route :: "nat \<Rightarrow> http_outcome" where
  "flaky_then_no_route k = (if k = 0 then HttpRaised NetworkError else no_route_reply)"

definition good_quote :: json where
  "good_quote = JDict [(''inputMint'', JStr ''MINT''), (''outAmount'', JStr ''2500'')]"

section \<open>Sample states of the world\<close>

text \<open>A wallet with 0.3 SOL and no tokens, a reachable RPC node, a swap that is built,
  signed and sent, and a confirmation that times out.\<close>

definition sample_env :: env where
  "sample_env =
     \<lparr>rpc_connected = True,
      endpoint_alive = (\<lambda>url. True),
      balance_read = Inr 300000000,
      token_read = Some 0,
      price_api = None,
      quote_http = (\<lambda>k. HttpRaised NetworkError),
      str_repr = (\<lambda>v. []),
      swap_http = HttpResponse \<lparr>status_code = 200, body_text = [],
          json_body = Some (JDict [(''swapTransaction'', JStr ''AQAAAA=='')])\<rparr>,
      decode_and_sign = (\<lambda>tx. None),
      send_result = Inr ''5VERv8NMvzbJMEkV8xnrLkEaWRtSz9CosKDYjCJjBRnb'',
      confirm_result = Some TimeoutError,
      now = 0,
      fromisoformat = (\<lambda>s. None)\<rparr>"

text \<open>A wallet with 2 SOL, for which the aggregator answers every quote request with
  \<open>good_quote\<close>.\<close>

definition buying_env :: env where
  "buying_env =
     sample_env\<lparr>balance_read := Inr 2000000000,
       quote_http := (\<lambda>k. HttpResponse \<lparr>status_code = 200, body_text = [],
                                         json_body = Some good_quote\<rparr>)\<rparr>"

section \<open>Statements about the position monitor\<close>

text \<open>The auto-sell requests of a trace, and the action each one stands for (the reason
  strings of the source are one per action).\<close>

definition is_sell_request :: "event \<Rightarrow> bool" where
  "is_sell_request e = (case e of TriggerAutoSell i pct r \<Rightarrow> True | _ \<Rightarrow> False)"

definition sell_requests :: "event list \<Rightarrow> event list" where
  "sell_requests tr = filter is_sell_request tr"

fun action_of_reason :: "sell_reason \<Rightarrow> action" where
  "action_of_reason (StopLossHit p) = stop_loss"
| "action_of_reason (TrailingStopDropped d) = trailing_stop"
| "action_of_reason (TP1Hit p) = take_profit_1"
| "action_of_reason (TP2Hit p) = take_profit_2"
| "action_of_reason TimeBasedTriggered = time_based"

fun requested_actions :: "event list \<Rightarrow> action list" where
  "requested_actions [] = []"
| "requested_actions (TriggerAutoSell i pct r # tr) = action_of_reason r # requested_actions tr"
| "requested_actions (e # tr) = requested_actions tr"

text \<open>
  A position is monitored in a cycle when it passes the guards of lines 612 and 615, its
  channel policy resolves, and a price was obtained: \<open>entry_price\<close> and \<open>current_price\<close> are
  the two prices the triggers are computed from.
\<close>

definition monitored :: "env \<Rightarrow> position \<Rightarrow> channel_config \<Rightarrow> real \<Rightarrow> real \<Rightarrow> bool" where
  "monitored w pos config entry_price current_price \<longleftrightarrow>
     (case pos_contract_address pos of
        None \<Rightarrow> False
      | Some c \<Rightarrow> c \<noteq> [] \<and> fst (current_price_of w c) = Inr (Some current_price)) \<and>
     pos_entry_price pos = Some entry_price \<and> entry_price \<noteq> 0 \<and>
     \<not> auto_sell_off pos \<and> position_config pos = Inr config"

text \<open>The trigger conditions of the four price-based exits, each as the source tests it
  when its branch is reached.\<close>

definition stop_loss_condition :: "position \<Rightarrow> channel_config \<Rightarrow> real \<Rightarrow> real \<Rightarrow> bool" where
  "stop_loss_condition pos config entry_price current_price \<longleftrightarrow>
     (case get_or (pos_stop_loss_pct pos) (stop_loss_pct config) of
        None \<Rightarrow> False
      | Some sl \<Rightarrow> pnl_pct current_price entry_price \<le> sl)"

definition trailing_stop_condition :: "position \<Rightarrow> channel_config \<Rightarrow> real \<Rightarrow> real \<Rightarrow> bool" where
  "trailing_stop_condition pos config entry_price current_price \<longleftrightarrow>
     trailing_branch pos (new_highest (pos_highest_price pos) current_price)
       (pnl_pct current_price entry_price) \<and>
     drop_from_high (new_highest (pos_highest_price pos) current_price) current_price
       \<ge> trailing_pct pos config"

definition take_profit_1_condition :: "position \<Rightarrow> channel_config \<Rightarrow> real \<Rightarrow> real \<Rightarrow> bool" where
  "take_profit_1_condition pos config entry_price current_price \<longleftrightarrow>
     pos_status pos = Some ''bought'' \<and>
     (case get_or (pos_take_profit_1_pct pos) (take_profit_1_pct config) of
        None \<Rightarrow> False
      | Some tp1 \<Rightarrow> pnl_pct current_price entry_price \<ge> tp1)"

definition take_profit_2_condition :: "position \<Rightarrow> channel_config \<Rightarrow> real \<Rightarrow> real \<Rightarrow> bool" where
  "take_profit_2_condition pos config entry_price current_price \<longleftrightarrow>
     pos_status pos = Some ''partial_tp1'' \<and>
     (case get_or (pos_take_profit_2_pct pos) (take_profit_2_pct config) of
        None \<Rightarrow> False
      | Some tp2 \<Rightarrow> pnl_pct current_price entry_price \<ge> tp2)"

text \<open>At least two of the listed conditions hold; the first that holds in the order
  stop-loss, trailing-stop, TP1, TP2.\<close>

definition several :: "bool list \<Rightarrow> bool" where
  "several conditions \<longleftrightarrow> 2 \<le> length (filter (\<lambda>b. b) conditions)"

definition highest_priority :: "bool \<Rightarrow> bool \<Rightarrow> bool \<Rightarrow> bool \<Rightarrow> action" where
  "highest_priority sl ts tp1 tp2 =
     (if sl then stop_loss else if ts then trailing_stop
      else if tp1 then take_profit_1 else take_profit_2)"

text \<open>Traces made of quote requests and sleeps only.\<close>

definition quote_events :: "event list \<Rightarrow> bool" where
  "quote_events tr = list_all (\<lambda>e. is_quote_request e \<or> is_sleep e) tr"

text \<open>The \<^verbatim>\<open>highest_price\<close> argument of the \<^verbatim>\<open>update_position_price\<close> call of a trace.\<close>

fun reported_highest :: "event list \<Rightarrow> real option" where
  "reported_highest [] = None"
| "reported_highest (UpdatePositionPrice i c hp # tr) = hp"
| "reported_highest (e # tr) = reported_highest tr"

text \<open>
  Modelled from the spec: the backend, which is not part of the sources, keeps the
  \<^verbatim>\<open>highest_price\<close> of a trade and stores the value the monitor reports (section 6, "update
  position price and highest price").  \<open>monitor_runs stored cycles\<close> is the list of the
  values reported for one trade over consecutive cycles, \<open>stored\<close> being the value the
  backend holds before the first of them; whatever else the backend changed in the
  position between two cycles is left free.
\<close>

fun monitor_runs :: "real option \<Rightarrow> (env \<times> position) list \<Rightarrow> real list" where
  "monitor_runs stored [] = []"
| "monitor_runs stored ((w, pos) # rest) =
     (case reported_highest (fst (process_position w (pos\<lparr>pos_highest_price := stored\<rparr>))) of
        None \<Rightarrow> monitor_runs stored rest
      | Some h \<Rightarrow> h # monitor_runs (Some h) rest)"

section \<open>Sample positions\<close>

text \<open>The policy of the channel \<^verbatim>\<open>memecoin-alpha\<close>, and a position of that channel bought
  at 1 whose highest price so far is 2, with the trailing stop enabled at 15 percent.\<close>

definition alpha_config :: channel_config where
  "alpha_config =
     \<lparr>priority = ''high'', allocation_sol = 0.5, stop_loss_pct = -25,
      take_profit_1_pct = 100, take_profit_2_pct = 200, trailing_stop_enabled = True,
      trailing_stop_pct = 15, time_based_sell_enabled = False,
      time_based_sell_minutes = None, auto_sell_enabled = True\<rparr>"

definition base_position :: position where
  "base_position =
     \<lparr>pos_id = Some ''trade-1'',
      pos_contract_address = Some ''MINT'',
      pos_entry_price = Some 1,
      pos_status = Some ''bought'',
      pos_channel_name = Value ''memecoin-alpha'',
      pos_highest_price = Some 2,
      pos_auto_sell_enabled = Missing,
      pos_trailing_stop_enabled = Value True,
      pos_trailing_stop_pct = Value 15,
      pos_time_based_sell_at = None,
      pos_stop_loss_pct = Missing,
      pos_take_profit_1_pct = Missing,
      pos_take_profit_2_pct = Missing\<rparr>"

text \<open>The world in which the price index answers \<open>p\<close>.\<close>

definition world_at :: "real \<Rightarrow> env" where
  "world_at p = sample_env\<lparr>price_api := Some p\<rparr>"

text \<open>Variants: a highest price of 4; a stop-loss override stored as \<^verbatim>\<open>null\<close>; a highest
  price of 1; and a position without trailing stop whose time-based exit is due.\<close>

definition falling_position :: position where
  "falling_position = base_position\<lparr>pos_highest_price := Some 4\<rparr>"

definition null_stop_loss_position :: position where
  "null_stop_loss_position = base_position\<lparr>pos_id := Some ''trade-0'', pos_stop_loss_pct := Null\<rparr>"

definition losing_position :: position where
  "losing_position = base_position\<lparr>pos_id := Some ''trade-2'', pos_highest_price := Some 1\<rparr>"

definition timed_position :: position where
  "timed_position =
     base_position\<lparr>pos_trailing_stop_enabled := Missing,
       pos_time_based_sell_at := Some ''2024-01-01T00:00:00Z''\<rparr>"

definition timed_world :: env where
  "timed_world =
     (world_at (5 / 4))\<lparr>now := 1704067260,
        fromisoformat := (\<lambda>s. if s = ''2024-01-01T00:00:00+00:00''
                                then Some (Aware 1704067200) else None)\<rparr>"

text \<open>The position whose highest price is 4, with a stop-loss override stored as \<^verbatim>\<open>null\<close>.\<close>

definition null_falling_position :: position where
  "null_falling_position = falling_position\<lparr>pos_stop_loss_pct := Null\<rparr>"

section \<open>The quote service\<close>

lemma no_liquidity_attempt:
  "no_liquidity_response repr outcome \<Longrightarrow> quote_attempt repr outcome = ReturnNone"
  by (auto simp: no_liquidity_response_def quote_attempt_def response_json_def
      split: http_outcome.splits option.splits json.splits)

lemma transient_attempt:
  "transient_error repr outcome \<Longrightarrow> \<exists>e. quote_attempt repr outcome = Caught e"
  by (auto simp: transient_error_def no_liquidity_response_def quote_attempt_def
      response_json_def accept_quote_def raise_for_status_def
      split: http_outcome.splits option.splits json.splits sum.splits)

lemma quote_loop_no_route:
  "k < n \<Longrightarrow>
   (\<forall>j<k. case quote_attempt repr (http (attempt + j)) of
             FallThrough \<Rightarrow> True | Caught e \<Rightarrow> True | _ \<Rightarrow> False) \<Longrightarrow>
   quote_attempt repr (http (attempt + k)) = ReturnNone \<Longrightarrow>
   is_quote_request req \<Longrightarrow>
   fst (quote_loop repr http req retries attempt n) = None \<and>
   snd (quote_loop repr http req retries attempt n) \<noteq> [] \<and>
   last (snd (quote_loop repr http req retries attempt n)) = req \<and>
   attempts_made (snd (quote_loop repr http req retries attempt n)) = Suc k"
proof (induction k arbitrary: attempt n)
  case 0
  then obtain m where n: "n = Suc m" by (cases n) auto
  from 0 show ?case by (simp add: n attempts_made_def)
next
  case (Suc k)
  then obtain m where n: "n = Suc m" by (cases n) auto
  have km: "k < m" using Suc.prems(1) n by simp
  have step: "\<forall>j<k. case quote_attempt repr (http (Suc attempt + j)) of
             FallThrough \<Rightarrow> True | Caught e \<Rightarrow> True | _ \<Rightarrow> False"
  proof (intro allI impI)
    fix j assume "j < k"
    then have "Suc j < Suc k" by simp
    with Suc.prems(2) show "case quote_attempt repr (http (Suc attempt + j)) of
             FallThrough \<Rightarrow> True | Caught e \<Rightarrow> True | _ \<Rightarrow> False"
      by (metis add_Suc_shift)
  qed
  have last: "quote_attempt repr (http (Suc attempt + k)) = ReturnNone"
    using Suc.prems(3) by simp
  note IH = Suc.IH [OF km step last Suc.prems(4)]
  have first: "case quote_attempt repr (http attempt) of
             FallThrough \<Rightarrow> True | Caught e \<Rightarrow> True | _ \<Rightarrow> False"
    using Suc.prems(2) [rule_format, of 0] by simp
  have sl: "\<not> is_quote_request (Sleep 1)" by (simp add: is_quote_request_def)
  show ?case
    using IH first Suc.prems(4) sl
    by (auto simp: n attempts_made_def split: attempt_result.splits prod.splits)
qed

lemma quote_loop_all_fail:
  "(\<forall>j<n. \<exists>e. quote_attempt repr (http (attempt + j)) = Caught e) \<Longrightarrow>
   int attempt + int n = retries \<Longrightarrow>
   quote_loop repr http req retries attempt n = (None, retry_trace req n)"
proof (induction n arbitrary: attempt)
  case 0
  then show ?case by (simp add: retry_trace_def)
next
  case (Suc n)
  have step: "\<forall>j<n. \<exists>e. quote_attempt repr (http (Suc attempt + j)) = Caught e"
  proof (intro allI impI)
    fix j assume "j < n"
    then have "Suc j < Suc n" by simp
    with Suc.prems(1) show "\<exists>e. quote_attempt repr (http (Suc attempt + j)) = Caught e"
      by (metis add_Suc_shift)
  qed
  have r: "int (Suc attempt) + int n = retries" using Suc.prems(2) by simp
  note IH = Suc.IH [OF step r]
  obtain e where e: "quote_attempt repr (http attempt) = Caught e"
    using Suc.prems(1) [rule_format, of 0] by auto
  have cond: "(int attempt < retries - 1) = (n \<noteq> 0)" using Suc.prems(2) by auto
  show ?case
  proof (cases n)
    case 0
    with IH e cond show ?thesis by (simp add: retry_trace_def)
  next
    case (Suc m)
    with IH e cond show ?thesis by (simp add: retry_trace_def)
  qed
qed

lemma quote_loop_returns:
  "quote_loop repr http req retries attempt n = (Some q, tr) \<Longrightarrow>
   \<exists>k. quote_attempt repr (http k) = ReturnQuote q"
proof (induction n arbitrary: attempt tr)
  case 0
  then show ?case by simp
next
  case (Suc n)
  then show ?case
    by (auto split: attempt_result.splits prod.splits)
qed

lemma accept_quote_truthy:
  "accept_quote r = ReturnQuote q \<Longrightarrow> truthy_out_amount q \<and> json_body r = Some q"
  by (auto simp: accept_quote_def truthy_out_amount_def response_json_def
      split: option.splits sum.splits if_splits json.splits)

lemma quote_attempt_truthy:
  "quote_attempt repr outcome = ReturnQuote q \<Longrightarrow> truthy_out_amount q"
  by (auto simp: quote_attempt_def dest: accept_quote_truthy
      split: http_outcome.splits sum.splits if_splits)

text \<open>
  Claim C6.  When attempt \<open>k\<close> of a call of \<^verbatim>\<open>get_quote\<close> is reached and receives the
  structured no-route answer, the call returns \<^verbatim>\<open>None\<close> after exactly \<open>k + 1\<close> requests,
  the last event of the call being that request: nothing is retried.  When every attempt
  meets an HTTP or network error, the call makes \<open>retries\<close> requests, sleeps one second
  between two of them, and returns \<^verbatim>\<open>None\<close>.
\<close>

theorem get_quote_retry_policy:
  "(k < nat retries \<and> reached repr http k \<and> no_liquidity_response repr (http k) \<longrightarrow>
      fst (get_quote repr http input_mint output_mint amount slippage_bps retries) = None \<and>
      attempts_made (snd (get_quote repr http input_mint output_mint amount slippage_bps retries))
        = Suc k \<and>
      snd (get_quote repr http input_mint output_mint amount slippage_bps retries) \<noteq> [] \<and>
      last (snd (get_quote repr http input_mint output_mint amount slippage_bps retries))
        = QuoteRequest input_mint output_mint amount slippage_bps) \<and>
   (all_transient repr http (nat retries) \<longrightarrow>
      get_quote repr http input_mint output_mint amount slippage_bps retries
        = (None, retry_trace (QuoteRequest input_mint output_mint amount slippage_bps) (nat retries)))"
proof (intro conjI impI)
  let ?req = "QuoteRequest input_mint output_mint amount slippage_bps"
  have req: "is_quote_request ?req" by (simp add: is_quote_request_def)
  {
    assume A: "k < nat retries \<and> reached repr http k \<and> no_liquidity_response repr (http k)"
    then have r: "\<forall>j<k. case quote_attempt repr (http (0 + j)) of
             FallThrough \<Rightarrow> True | Caught e \<Rightarrow> True | _ \<Rightarrow> False"
      by (simp add: reached_def list_all_iff)
    have n: "quote_attempt repr (http (0 + k)) = ReturnNone"
      using A by (simp add: no_liquidity_attempt)
    from A have k: "k < nat retries" by simp
    note L = quote_loop_no_route [OF k r n req, of retries]
    from L show "fst (get_quote repr http input_mint output_mint amount slippage_bps retries) = None"
      by (simp add: get_quote_def)
    from L show "attempts_made (snd (get_quote repr http input_mint output_mint amount slippage_bps retries)) = Suc k"
      by (simp add: get_quote_def)
    from L show "snd (get_quote repr http input_mint output_mint amount slippage_bps retries) \<noteq> []"
      by (simp add: get_quote_def)
    from L show "last (snd (get_quote repr http input_mint output_mint amount slippage_bps retries)) = ?req"
      by (simp add: get_quote_def)
  }
  {
    assume B: "all_transient repr http (nat retries)"
    then have f: "\<forall>j<nat retries. \<exists>e. quote_attempt repr (http (0 + j)) = Caught e"
      by (simp add: all_transient_def list_all_iff transient_attempt)
    show "get_quote repr http input_mint output_mint amount slippage_bps retries
        = (None, retry_trace ?req (nat retries))"
    proof (cases "0 \<le> retries")
      case True
      then have "int 0 + int (nat retries) = retries" by simp
      from quote_loop_all_fail [OF f this] show ?thesis by (simp add: get_quote_def)
    next
      case False
      then show ?thesis by (simp add: get_quote_def retry_trace_def)
    qed
  }
qed

text \<open>
  Claim C7, as the code has it.  A quote that \<^verbatim>\<open>get_quote\<close> returns is a JSON object whose
  \<^verbatim>\<open>outAmount\<close> is present and truthy; an answer whose \<^verbatim>\<open>outAmount\<close> is absent, \<^verbatim>\<open>null\<close>,
  the number zero or empty is never returned.  Truthiness is all that line 279 tests.
\<close>

theorem get_quote_returns_truthy_out_amount:
  "fst (get_quote repr http input_mint output_mint amount slippage_bps retries) = Some q \<Longrightarrow>
   truthy_out_amount q"
proof -
  assume "fst (get_quote repr http input_mint output_mint amount slippage_bps retries) = Some q"
  then obtain tr where
    "quote_loop repr http (QuoteRequest input_mint output_mint amount slippage_bps)
       retries 0 (nat retries) = (Some q, tr)"
    by (cases "quote_loop repr http (QuoteRequest input_mint output_mint amount slippage_bps)
       retries 0 (nat retries)") (simp add: get_quote_def)
  from quote_loop_returns [OF this] obtain k where
    "quote_attempt repr (http k) = ReturnQuote q" by blast
  then show ?thesis by (rule quote_attempt_truthy)
qed

theorem get_quote_retry_policy_witness:
  "reached (\<lambda>v. []) flaky_then_no_route 1 \<and>
   no_liquidity_response (\<lambda>v. []) (flaky_then_no_route 1) \<and>
   fst (get_quote (\<lambda>v. []) flaky_then_no_route ''MINT'' SOL_MINT 1000 100 3) = None \<and>
   attempts_made (snd (get_quote (\<lambda>v. []) flaky_then_no_route ''MINT'' SOL_MINT 1000 100 3)) = 2 \<and>
   all_transient (\<lambda>v. []) (\<lambda>k. HttpRaised NetworkError) 3 \<and>
   get_quote (\<lambda>v. []) (\<lambda>k. HttpRaised NetworkError) ''MINT'' SOL_MINT 1000 100 3
     = (None, [QuoteRequest ''MINT'' SOL_MINT 1000 100, Sleep 1,
               QuoteRequest ''MINT'' SOL_MINT 1000 100, Sleep 1,
               QuoteRequest ''MINT'' SOL_MINT 1000 100])"
proof -
  have h1: "reached (\<lambda>v. []) flaky_then_no_route 1"
    by (simp add: reached_def flaky_then_no_route_def quote_attempt_def)
  have h2: "no_liquidity_response (\<lambda>v. []) (flaky_then_no_route 1)"
    by (simp add: no_liquidity_response_def flaky_then_no_route_def no_route_reply_def
        no_route_message_def)
  have h3: "all_transient (\<lambda>v. []) (\<lambda>k. HttpRaised NetworkError) 3"
    by (simp add: all_transient_def transient_error_def list_all_iff)
  have t: "retry_trace (QuoteRequest ''MINT'' SOL_MINT 1000 100) 3 =
      [QuoteRequest ''MINT'' SOL_MINT 1000 100, Sleep 1,
       QuoteRequest ''MINT'' SOL_MINT 1000 100, Sleep 1,
       QuoteRequest ''MINT'' SOL_MINT 1000 100]"
    by (simp add: retry_trace_def numeral_2_eq_2)
  from get_quote_retry_policy [of 1 3 "\<lambda>v. []" flaky_then_no_route "''MINT''" SOL_MINT 1000 100]
    h1 h2
  have a: "fst (get_quote (\<lambda>v. []) flaky_then_no_route ''MINT'' SOL_MINT 1000 100 3) = None \<and>
   attempts_made (snd (get_quote (\<lambda>v. []) flaky_then_no_route ''MINT'' SOL_MINT 1000 100 3)) = 2"
    by simp
  from get_quote_retry_policy [of 0 3 "\<lambda>v. []" "\<lambda>k. HttpRaised NetworkError" "''MINT''" SOL_MINT 1000 100]
    h3 t
  have b: "get_quote (\<lambda>v. []) (\<lambda>k. HttpRaised NetworkError) ''MINT'' SOL_MINT 1000 100 3
     = (None, [QuoteRequest ''MINT'' SOL_MINT 1000 100, Sleep 1,
               QuoteRequest ''MINT'' SOL_MINT 1000 100, Sleep 1,
               QuoteRequest ''MINT'' SOL_MINT 1000 100])"
    by simp
  from h1 h2 h3 a b show ?thesis by simp
qed

theorem get_quote_returns_truthy_out_amount_witness:
  "fst (get_quote (\<lambda>v. [])
          (\<lambda>k. HttpResponse \<lparr>status_code = 200, body_text = [], json_body = Some good_quote\<rparr>)
          ''MINT'' SOL_MINT 1000 100 3) = Some good_quote \<and>
   truthy_out_amount good_quote"
proof -
  have r: "fst (get_quote (\<lambda>v. [])
          (\<lambda>k. HttpResponse \<lparr>status_code = 200, body_text = [], json_body = Some good_quote\<rparr>)
          ''MINT'' SOL_MINT 1000 100 3) = Some good_quote"
    by (simp add: get_quote_def numeral_3_eq_3 quote_attempt_def accept_quote_def
        raise_for_status_def response_json_def good_quote_def)
  from get_quote_returns_truthy_out_amount [OF r] r show ?thesis by simp
qed

text \<open>
  The amount need not be positive: the string \<^verbatim>\<open>"0"\<close> is truthy in Python, so a quote
  with \<^verbatim>\<open>outAmount = "0"\<close> is returned to the caller.
\<close>

theorem get_quote_positive_out_amount_counterexample:
  "fst (get_quote (\<lambda>v. [])
          (\<lambda>k. HttpResponse \<lparr>status_code = 200, body_text = [], json_body = Some zero_quote\<rparr>)
          ''MINT'' SOL_MINT 1000 100 3) = Some zero_quote \<and>
   out_amount zero_quote = Inr 0 \<and>
   \<not> positive_out_amount zero_quote"
  by code_simp


section \<open>The swap executor\<close>

text \<open>
  Claim C9.  \<^verbatim>\<open>buy_token\<close> with a balance below \<open>amount_sol + 0.01\<close> returns the failed
  result of line 416, and \<^verbatim>\<open>sell_token\<close> with an unreadable or non-positive token balance,
  or with a sell amount \<open>(token_amount * percentage) div 100\<close> that is not positive, returns
  the failed result of line 455 or 459.  In each case the trace of external calls is
  empty: no quote is requested and no swap is attempted.
\<close>

theorem precondition_failures_make_no_call:
  "(get_balance w = Inr balance \<and> balance < amount_sol + 0.01 \<longrightarrow>
      buy_token w contract_address amount_sol slippage_bps
        = (Inr (failure (InsufficientBalance balance)), [])) \<and>
   (ensure_rpc w = None \<and> (token_read w = None \<or> (\<exists>n. token_read w = Some n \<and> n \<le> 0)) \<longrightarrow>
      sell_token w contract_address percentage slippage_bps
        = (Inr (failure (Message ''No token balance found'')), [])) \<and>
   (ensure_rpc w = None \<and> token_read w = Some token_amount \<and> 0 < token_amount \<and>
      (token_amount * percentage) div 100 \<le> 0 \<longrightarrow>
      sell_token w contract_address percentage slippage_bps
        = (Inr (failure (Message ''No tokens to sell'')), []))"
  by (auto simp: buy_token_def sell_token_def get_token_balance_def Let_def)

theorem precondition_failures_make_no_call_witness:
  "get_balance sample_env = Inr (3 / 10) \<and>
   buy_token sample_env ''MINT'' (1 / 2) 100 = (Inr (failure (InsufficientBalance (3 / 10))), []) \<and>
   sell_token sample_env ''MINT'' 100 100 = (Inr (failure (Message ''No token balance found'')), []) \<and>
   sell_token (sample_env\<lparr>token_read := Some 50\<rparr>) ''MINT'' 0 100
     = (Inr (failure (Message ''No tokens to sell'')), []) \<and>
   \<not> success (failure (Message ''No tokens to sell''))"
proof -
  have b: "get_balance sample_env = Inr (3 / 10)"
    by (simp add: get_balance_def ensure_rpc_def sample_env_def)
  have c: "ensure_rpc sample_env = None" "ensure_rpc (sample_env\<lparr>token_read := Some 50\<rparr>) = None"
    by (simp_all add: ensure_rpc_def sample_env_def)
  have t: "token_read sample_env = Some 0" by (simp add: sample_env_def)
  from precondition_failures_make_no_call
    [where w = sample_env and balance = "3 / 10" and amount_sol = "1 / 2"
       and contract_address = "''MINT''" and slippage_bps = 100] b
  have 1: "buy_token sample_env ''MINT'' (1 / 2) 100 = (Inr (failure (InsufficientBalance (3 / 10))), [])"
    by simp
  from precondition_failures_make_no_call
    [where w = sample_env and contract_address = "''MINT''" and percentage = 100
       and slippage_bps = 100] c t
  have 2: "sell_token sample_env ''MINT'' 100 100 = (Inr (failure (Message ''No token balance found'')), [])"
    by simp
  from precondition_failures_make_no_call
    [where w = "sample_env\<lparr>token_read := Some 50\<rparr>" and contract_address = "''MINT''"
       and percentage = 0 and slippage_bps = 100 and token_amount = 50] c
  have 3: "sell_token (sample_env\<lparr>token_read := Some 50\<rparr>) ''MINT'' 0 100
     = (Inr (failure (Message ''No tokens to sell'')), [])"
    by simp
  from b 1 2 3 show ?thesis by (simp add: failure_def)
qed

lemma swap_body_raises:
  "fst (submit_swap w quote) = Inl e \<Longrightarrow> fst (swap_body w quote) = Inl e"
  by (cases "submit_swap w quote") (simp add: swap_body_def)

lemma swap_body_submitted:
  "fst (submit_swap w quote) = Inr (Inr tx_signature) \<Longrightarrow>
   fst (swap_body w quote) = confirm_swap w quote tx_signature"
  by (cases "submit_swap w quote") (simp add: swap_body_def)

lemma execute_swap_returns: "\<exists>r. fst (execute_swap w quote) = Inr r"
  by (cases "swap_body w quote") (auto simp: execute_swap_def split: sum.splits)

section \<open>The position monitor\<close>

lemma quote_loop_events:
  "is_quote_request req \<Longrightarrow> quote_events (snd (quote_loop repr http req retries attempt n))"
proof (induction n arbitrary: attempt)
  case 0
  then show ?case by (simp add: quote_events_def)
next
  case (Suc n)
  from Suc.IH [OF Suc.prems, of "Suc attempt"] Suc.prems show ?case
    by (auto simp: quote_events_def is_sleep_def split: attempt_result.splits prod.splits)
qed

lemma get_quote_events: "quote_events (snd (get_quote repr http a b amount s retries))"
  unfolding get_quote_def by (rule quote_loop_events) (simp add: is_quote_request_def)

lemma current_price_events: "quote_events (snd (current_price_of w c))"
proof -
  have e: "quote_events []" by (simp add: quote_events_def)
  have q: "\<And>n. quote_events (snd (get_quote (str_repr w) (quote_http w) c SOL_MINT n 100 3))"
    by (rule get_quote_events)
  show ?thesis
    unfolding current_price_of_def using e q
    by (auto split: option.splits sum.splits prod.splits if_splits)
       (metis snd_conv)+
qed

lemma quote_events_no_sell: "quote_events tr \<Longrightarrow> sell_requests tr = []"
  by (induction tr)
     (auto simp: quote_events_def sell_requests_def is_sell_request_def is_quote_request_def
        is_sleep_def split: event.splits)

lemma quote_events_no_action: "quote_events tr \<Longrightarrow> requested_actions (tr @ tr') = requested_actions tr'"
  by (induction tr rule: requested_actions.induct)
     (auto simp: quote_events_def is_quote_request_def is_sleep_def)

lemma quote_events_not_trigger: "quote_events tr \<Longrightarrow> TriggerAutoSell i pct r \<notin> set tr"
  by (auto simp: quote_events_def list_all_iff is_quote_request_def is_sleep_def)

lemma quote_events_not_update: "quote_events tr \<Longrightarrow> UpdatePositionPrice i c hp \<notin> set tr"
  by (auto simp: quote_events_def list_all_iff is_quote_request_def is_sleep_def)

text \<open>The shape of the trace of a monitored position.\<close>

lemma process_position_monitored:
  assumes "monitored w pos config entry_price current_price"
  shows "\<exists>ptr. quote_events ptr \<and>
     process_position w pos =
       (case price_triggers pos config entry_price current_price of
          Inl e \<Rightarrow> (ptr, Some e)
        | Inr fired \<Rightarrow>
            (ptr @
             [UpdatePositionPrice (pos_id pos) current_price
                (Some (new_highest (pos_highest_price pos) current_price))] @
             (case time_based_check w pos fired of
                None \<Rightarrow> []
              | Some t \<Rightarrow> [TriggerAutoSell (pos_id pos) (sell_percentage t) (reason t)]),
             None))"
proof -
  from assms obtain c where c: "pos_contract_address pos = Some c" "c \<noteq> []"
    "fst (current_price_of w c) = Inr (Some current_price)"
    by (auto simp: monitored_def split: option.splits)
  obtain ptr where p: "current_price_of w c = (Inr (Some current_price), ptr)"
    using c(3) by (cases "current_price_of w c") auto
  have q: "quote_events ptr" using current_price_events [of w c] p by simp
  from assms c p have "process_position w pos =
       (case price_triggers pos config entry_price current_price of
          Inl e \<Rightarrow> (ptr, Some e)
        | Inr fired \<Rightarrow>
            (ptr @
             [UpdatePositionPrice (pos_id pos) current_price
                (Some (new_highest (pos_highest_price pos) current_price))] @
             (case time_based_check w pos fired of
                None \<Rightarrow> []
              | Some t \<Rightarrow> [TriggerAutoSell (pos_id pos) (sell_percentage t) (reason t)]),
             None))"
    by (simp add: process_position_def evaluate_position_def monitored_def)
  with q show ?thesis by blast
qed

text \<open>Any position: the trace is empty, or quote events, or quote events followed by the
  report and at most one request.\<close>

lemma process_position_cases:
  "(\<exists>ptr. quote_events ptr \<and> fst (process_position w pos) = ptr) \<or>
   (\<exists>config entry_price current_price fired ptr.
      monitored w pos config entry_price current_price \<and>
      price_triggers pos config entry_price current_price = Inr fired \<and>
      quote_events ptr \<and>
      process_position w pos =
        (ptr @
         [UpdatePositionPrice (pos_id pos) current_price
            (Some (new_highest (pos_highest_price pos) current_price))] @
         (case time_based_check w pos fired of
            None \<Rightarrow> []
          | Some t \<Rightarrow> [TriggerAutoSell (pos_id pos) (sell_percentage t) (reason t)]),
         None))"
proof -
  have e: "quote_events []" by (simp add: quote_events_def)
  show ?thesis
  proof (cases "\<exists>config entry_price current_price. monitored w pos config entry_price current_price")
    case True
    then obtain config entry_price current_price
      where m: "monitored w pos config entry_price current_price" by blast
    from process_position_monitored [OF m] obtain ptr where
      p: "quote_events ptr" "process_position w pos =
       (case price_triggers pos config entry_price current_price of
          Inl e \<Rightarrow> (ptr, Some e)
        | Inr fired \<Rightarrow>
            (ptr @
             [UpdatePositionPrice (pos_id pos) current_price
                (Some (new_highest (pos_highest_price pos) current_price))] @
             (case time_based_check w pos fired of
                None \<Rightarrow> []
              | Some t \<Rightarrow> [TriggerAutoSell (pos_id pos) (sell_percentage t) (reason t)]),
             None))" by blast
    show ?thesis
    proof (cases "price_triggers pos config entry_price current_price")
      case (Inl x)
      with p show ?thesis by auto
    next
      case (Inr fired)
      with p(2) have "process_position w pos =
        (ptr @
         [UpdatePositionPrice (pos_id pos) current_price
            (Some (new_highest (pos_highest_price pos) current_price))] @
         (case time_based_check w pos fired of
            None \<Rightarrow> []
          | Some t \<Rightarrow> [TriggerAutoSell (pos_id pos) (sell_percentage t) (reason t)]),
         None)" by simp
      with m Inr p(1) show ?thesis by blast
    qed
  next
    case False
    have "\<exists>ptr. quote_events ptr \<and> fst (process_position w pos) = ptr"
    proof (cases "pos_contract_address pos")
      case None
      with e show ?thesis by (simp add: process_position_def)
    next
      case (Some c)
      note c = this
      show ?thesis
      proof (cases "c = [] \<or> pos_entry_price pos = None \<or> pos_entry_price pos = Some 0 \<or> auto_sell_off pos")
        case True
        with c e show ?thesis by (auto simp: process_position_def split: option.splits)
      next
        case False
        then obtain entry where en: "pos_entry_price pos = Some entry" "entry \<noteq> 0"
          "c \<noteq> []" "\<not> auto_sell_off pos" by auto
        show ?thesis
        proof (cases "position_config pos")
          case (Inl x)
          with c en e show ?thesis by (simp add: process_position_def evaluate_position_def)
        next
          case (Inr config)
          obtain r ptr where cp: "current_price_of w c = (r, ptr)" by (cases "current_price_of w c")
          have q: "quote_events ptr" using current_price_events [of w c] cp by simp
          have "r \<noteq> Inr (Some current)" for current
            using \<open>\<not> (\<exists>config entry_price current_price. monitored w pos config entry_price current_price)\<close>
              c en Inr cp by (auto simp: monitored_def)
          with c en Inr cp q show ?thesis
            by (auto simp: process_position_def evaluate_position_def split: sum.splits option.splits)
        qed
      qed
    qed
    then show ?thesis by blast
  qed
qed

lemma at_most_one_request: "length (sell_requests (fst (process_position w pos))) \<le> 1"
  using process_position_cases [of w pos]
  by (auto simp: sell_requests_def is_sell_request_def quote_events_no_sell [unfolded sell_requests_def]
      split: option.splits)

lemma price_triggers_stop_loss:
  "stop_loss_condition pos config entry_price current_price \<Longrightarrow>
   price_triggers pos config entry_price current_price =
     Inr (Some \<lparr>action_needed = stop_loss, sell_percentage = 100,
                reason = StopLossHit (pnl_pct current_price entry_price)\<rparr>)"
  by (auto simp: stop_loss_condition_def price_triggers_def Let_def split: option.splits)

lemma price_triggers_trailing:
  "get_or (pos_stop_loss_pct pos) (stop_loss_pct config) \<noteq> None \<Longrightarrow>
   \<not> stop_loss_condition pos config entry_price current_price \<Longrightarrow>
   trailing_stop_condition pos config entry_price current_price \<Longrightarrow>
   price_triggers pos config entry_price current_price =
     Inr (Some \<lparr>action_needed = trailing_stop, sell_percentage = 100,
       reason = TrailingStopDropped
         (drop_from_high (new_highest (pos_highest_price pos) current_price) current_price)\<rparr>)"
  by (auto simp: stop_loss_condition_def trailing_stop_condition_def price_triggers_def Let_def
      split: option.splits if_splits)

lemma take_profits_exclusive:
  "\<not> (take_profit_1_condition pos config entry_price current_price \<and>
      take_profit_2_condition pos config entry_price current_price)"
  by (auto simp: take_profit_1_condition_def take_profit_2_condition_def)

lemma time_based_check_fired: "time_based_check w pos (Some t) = Some t"
  by (simp add: time_based_check_def)

text \<open>
  The priority order.  In one cycle the monitor requests at most one auto-sell for a
  position.  For a monitored position whose stop-loss threshold is a number, whenever at
  least two of the trigger conditions of stop-loss, trailing-stop, TP1 and TP2 hold, the
  evaluation completes and the one request made is for the action of highest priority
  among those that hold.  A threshold stored as \<^verbatim>\<open>null\<close> is treated with the sample
  positions below.
\<close>

theorem monitor_priority:
  "length (sell_requests (fst (process_position w pos))) \<le> 1 \<and>
   (monitored w pos config entry_price current_price \<and>
    get_or (pos_stop_loss_pct pos) (stop_loss_pct config) \<noteq> None \<and>
    several [stop_loss_condition pos config entry_price current_price,
             trailing_stop_condition pos config entry_price current_price,
             take_profit_1_condition pos config entry_price current_price,
             take_profit_2_condition pos config entry_price current_price] \<longrightarrow>
    snd (process_position w pos) = None \<and>
    requested_actions (fst (process_position w pos)) =
      [highest_priority
         (stop_loss_condition pos config entry_price current_price)
         (trailing_stop_condition pos config entry_price current_price)
         (take_profit_1_condition pos config entry_price current_price)
         (take_profit_2_condition pos config entry_price current_price)])"
proof (intro conjI impI)
  show "length (sell_requests (fst (process_position w pos))) \<le> 1"
    by (rule at_most_one_request)
next
  let ?sl = "stop_loss_condition pos config entry_price current_price"
  let ?ts = "trailing_stop_condition pos config entry_price current_price"
  let ?tp1 = "take_profit_1_condition pos config entry_price current_price"
  let ?tp2 = "take_profit_2_condition pos config entry_price current_price"
  assume a: "monitored w pos config entry_price current_price \<and>
    get_or (pos_stop_loss_pct pos) (stop_loss_pct config) \<noteq> None \<and>
    several [?sl, ?ts, ?tp1, ?tp2]"
  then have m: "monitored w pos config entry_price current_price"
    and n: "get_or (pos_stop_loss_pct pos) (stop_loss_pct config) \<noteq> None" by simp_all
  from process_position_monitored [OF m] obtain ptr where
    q: "quote_events ptr" and
    p: "process_position w pos =
       (case price_triggers pos config entry_price current_price of
          Inl e \<Rightarrow> (ptr, Some e)
        | Inr fired \<Rightarrow>
            (ptr @
             [UpdatePositionPrice (pos_id pos) current_price
                (Some (new_highest (pos_highest_price pos) current_price))] @
             (case time_based_check w pos fired of
                None \<Rightarrow> []
              | Some t \<Rightarrow> [TriggerAutoSell (pos_id pos) (sell_percentage t) (reason t)]),
             None))" by blast
  have ex: "\<not> (?tp1 \<and> ?tp2)" by (rule take_profits_exclusive)
  from a ex have top: "?sl \<or> ?ts" by (auto simp: several_def split: if_splits)
  have "snd (process_position w pos) = None \<and>
    requested_actions (fst (process_position w pos)) = [highest_priority ?sl ?ts ?tp1 ?tp2]"
  proof (cases ?sl)
    case True
    from price_triggers_stop_loss [OF True] p q True show ?thesis
      by (simp add: time_based_check_fired quote_events_no_action highest_priority_def)
  next
    case False
    with top have ts: ?ts by simp
    from price_triggers_trailing [OF n False ts] p q False ts show ?thesis
      by (simp add: time_based_check_fired quote_events_no_action highest_priority_def)
  qed
  then show "snd (process_position w pos) = None"
    and "requested_actions (fst (process_position w pos)) = [highest_priority ?sl ?ts ?tp1 ?tp2]"
    by simp_all
qed

text \<open>
  Outside the branch of line 659 the take-profit of a bought position is requested as
  soon as its threshold is reached.
\<close>

lemma take_profit_1_outside_trailing_branch:
  assumes "monitored w pos config entry_price current_price"
    and "get_or (pos_stop_loss_pct pos) (stop_loss_pct config) \<noteq> None"
    and "\<not> stop_loss_condition pos config entry_price current_price"
    and "\<not> trailing_branch pos (new_highest (pos_highest_price pos) current_price)
            (pnl_pct current_price entry_price)"
    and "take_profit_1_condition pos config entry_price current_price"
  shows "sell_requests (fst (process_position w pos)) =
     [TriggerAutoSell (pos_id pos) 50 (TP1Hit (pnl_pct current_price entry_price))]"
proof -
  from assms(2-5) have f: "price_triggers pos config entry_price current_price =
      Inr (Some \<lparr>action_needed = take_profit_1, sell_percentage = 50,
                 reason = TP1Hit (pnl_pct current_price entry_price)\<rparr>)"
    by (auto simp: stop_loss_condition_def take_profit_1_condition_def price_triggers_def Let_def
        split: option.splits)
  from process_position_monitored [OF assms(1)] f obtain ptr where
    "quote_events ptr" and
    "process_position w pos =
       (ptr @
        [UpdatePositionPrice (pos_id pos) current_price
           (Some (new_highest (pos_highest_price pos) current_price)),
         TriggerAutoSell (pos_id pos) 50 (TP1Hit (pnl_pct current_price entry_price))], None)"
    by (auto simp: time_based_check_fired)
  then show ?thesis
    by (simp add: sell_requests_def is_sell_request_def
        quote_events_no_sell [unfolded sell_requests_def])
qed

lemma price_triggers_none:
  "price_triggers pos config entry_price current_price = Inr None \<Longrightarrow>
   \<not> stop_loss_condition pos config entry_price current_price \<and>
   \<not> trailing_stop_condition pos config entry_price current_price"
  by (auto simp: stop_loss_condition_def trailing_stop_condition_def price_triggers_def Let_def
      split: option.splits if_splits)

lemma time_based_check_time:
  "time_based_check w pos fired = Some t \<Longrightarrow> reason t = TimeBasedTriggered \<Longrightarrow>
   (\<forall>t'. fired = Some t' \<longrightarrow> reason t' \<noteq> TimeBasedTriggered) \<Longrightarrow>
   fired = None \<and> sell_percentage t = 100 \<and>
   (\<exists>s sell_time. pos_time_based_sell_at pos = Some s \<and> s \<noteq> [] \<and>
      fromisoformat w (replace_Z s) = Some (Aware sell_time) \<and> sell_time \<le> now w)"
  by (auto simp: time_based_check_def split: option.splits if_splits datetime.splits)

lemma price_triggers_reason:
  "price_triggers pos config entry_price current_price = Inr (Some t) \<Longrightarrow>
   reason t \<noteq> TimeBasedTriggered"
  by (auto simp: price_triggers_def Let_def split: option.splits if_splits)

text \<open>
  Claim C3.  When the monitor requests the time-based exit for a position, the request is
  for 100 percent and is the only request of that position in the cycle; none of the
  price-based triggers fired (\<open>price_triggers\<close> returned \<open>None\<close>; in particular the
  stop-loss and trailing-stop conditions do not hold); and \<^verbatim>\<open>time_based_sell_at\<close> is set,
  parses to an aware time, and that time is not after \<open>now\<close>.
\<close>

theorem time_based_exit_only_alone:
  assumes "TriggerAutoSell i pct TimeBasedTriggered \<in> set (fst (process_position w pos))"
  shows "pct = 100 \<and>
     sell_requests (fst (process_position w pos)) = [TriggerAutoSell i 100 TimeBasedTriggered] \<and>
     (\<exists>config entry_price current_price.
        monitored w pos config entry_price current_price \<and>
        price_triggers pos config entry_price current_price = Inr None \<and>
        \<not> stop_loss_condition pos config entry_price current_price \<and>
        \<not> trailing_stop_condition pos config entry_price current_price) \<and>
     (\<exists>s sell_time. pos_time_based_sell_at pos = Some s \<and> s \<noteq> [] \<and>
        fromisoformat w (replace_Z s) = Some (Aware sell_time) \<and> sell_time \<le> now w)"
proof -
  from process_position_cases [of w pos] assms obtain config entry_price current_price fired ptr
    where m: "monitored w pos config entry_price current_price"
      and f: "price_triggers pos config entry_price current_price = Inr fired"
      and q: "quote_events ptr"
      and p: "process_position w pos =
        (ptr @
         [UpdatePositionPrice (pos_id pos) current_price
            (Some (new_highest (pos_highest_price pos) current_price))] @
         (case time_based_check w pos fired of
            None \<Rightarrow> []
          | Some t \<Rightarrow> [TriggerAutoSell (pos_id pos) (sell_percentage t) (reason t)]),
         None)"
    by (auto dest: quote_events_not_trigger)
  from assms p q obtain t where
    t: "time_based_check w pos fired = Some t" "reason t = TimeBasedTriggered"
       "i = pos_id pos" "pct = sell_percentage t"
    by (auto dest: quote_events_not_trigger split: option.splits)
  have "\<forall>t'. fired = Some t' \<longrightarrow> reason t' \<noteq> TimeBasedTriggered"
    using f price_triggers_reason by blast
  from time_based_check_time [OF t(1) t(2) this] have
    n: "fired = None" and h: "sell_percentage t = 100" and
    e: "\<exists>s sell_time. pos_time_based_sell_at pos = Some s \<and> s \<noteq> [] \<and>
      fromisoformat w (replace_Z s) = Some (Aware sell_time) \<and> sell_time \<le> now w"
    by auto
  from p t h q have s: "sell_requests (fst (process_position w pos)) = [TriggerAutoSell i 100 TimeBasedTriggered]"
    by (simp add: sell_requests_def is_sell_request_def quote_events_no_sell [unfolded sell_requests_def])
  from f n have fn: "price_triggers pos config entry_price current_price = Inr None" by simp
  from price_triggers_none [OF fn] m fn have
    "\<exists>config entry_price current_price.
        monitored w pos config entry_price current_price \<and>
        price_triggers pos config entry_price current_price = Inr None \<and>
        \<not> stop_loss_condition pos config entry_price current_price \<and>
        \<not> trailing_stop_condition pos config entry_price current_price" by blast
  with t h s e show ?thesis by simp
qed

lemma new_highest_max:
  "new_highest highest_price current_price =
     (case highest_price of None \<Rightarrow> current_price | Some h \<Rightarrow> max h current_price)"
  by (auto simp: new_highest_def max_def split: option.splits)

lemma reported_highest_quote_events:
  "quote_events tr \<Longrightarrow> reported_highest (tr @ tr') = reported_highest tr'"
  by (induction tr rule: reported_highest.induct)
     (auto simp: quote_events_def is_quote_request_def is_sleep_def)

lemma reported_highest_process:
  assumes "reported_highest (fst (process_position w pos)) = Some h"
  shows "\<exists>current_price. h = new_highest (pos_highest_price pos) current_price"
proof -
  from process_position_cases [of w pos] show ?thesis
  proof
    assume "\<exists>ptr. quote_events ptr \<and> fst (process_position w pos) = ptr"
    then have "quote_events (fst (process_position w pos))" by simp
    from reported_highest_quote_events [OF this, of "[]"] assms show ?thesis by simp
  next
    assume "\<exists>config entry_price current_price fired ptr.
      monitored w pos config entry_price current_price \<and>
      price_triggers pos config entry_price current_price = Inr fired \<and>
      quote_events ptr \<and>
      process_position w pos =
        (ptr @
         [UpdatePositionPrice (pos_id pos) current_price
            (Some (new_highest (pos_highest_price pos) current_price))] @
         (case time_based_check w pos fired of
            None \<Rightarrow> []
          | Some t \<Rightarrow> [TriggerAutoSell (pos_id pos) (sell_percentage t) (reason t)]),
         None)"
    then obtain current_price fired ptr where q: "quote_events ptr" and
      p: "process_position w pos =
        (ptr @
         [UpdatePositionPrice (pos_id pos) current_price
            (Some (new_highest (pos_highest_price pos) current_price))] @
         (case time_based_check w pos fired of
            None \<Rightarrow> []
          | Some t \<Rightarrow> [TriggerAutoSell (pos_id pos) (sell_percentage t) (reason t)]),
         None)" by blast
    from assms p reported_highest_quote_events [OF q] show ?thesis by auto
  qed
qed

lemma monitor_runs_lower_bound:
  "h \<in> set (monitor_runs (Some h0) cycles) \<Longrightarrow> h0 \<le> h"
proof (induction cycles arbitrary: h0)
  case Nil
  then show ?case by simp
next
  case (Cons c cycles)
  obtain w pos where c: "c = (w, pos)" by (cases c)
  show ?case
  proof (cases "reported_highest (fst (process_position w (pos\<lparr>pos_highest_price := Some h0\<rparr>)))")
    case None
    with Cons c show ?thesis by simp
  next
    case (Some h1)
    from reported_highest_process [OF Some] have le: "h0 \<le> h1"
      by (auto simp: new_highest_def split: if_splits)
    from Cons.prems c Some have "h = h1 \<or> h \<in> set (monitor_runs (Some h1) cycles)" by simp
    then show ?thesis
    proof
      assume "h = h1" with le show ?thesis by simp
    next
      assume "h \<in> set (monitor_runs (Some h1) cycles)"
      from Cons.IH [OF this] le show ?thesis by simp
    qed
  qed
qed

lemma monitor_runs_sorted: "sorted (monitor_runs stored cycles)"
proof (induction cycles arbitrary: stored)
  case Nil
  then show ?case by simp
next
  case (Cons c cycles)
  obtain w pos where c: "c = (w, pos)" by (cases c)
  show ?case
    using Cons.IH c monitor_runs_lower_bound
    by (auto split: option.splits)
qed

text \<open>
  Claim C4.  The highest price that the monitor reports for a position is the maximum of
  the stored highest price and the current price, the current price itself when nothing
  is stored.  Hence the values reported over consecutive cycles are non-decreasing, and
  none is below the value stored before the first cycle.
\<close>

theorem highest_price_monotone:
  "(UpdatePositionPrice i current_price hp \<in> set (fst (process_position w pos)) \<longrightarrow>
      hp = Some (case pos_highest_price pos of
                   None \<Rightarrow> current_price
                 | Some h \<Rightarrow> max h current_price)) \<and>
   sorted (monitor_runs stored cycles) \<and>
   (\<forall>h \<in> set (monitor_runs (Some h0) cycles). h0 \<le> h)"
proof (intro conjI impI ballI)
  assume u: "UpdatePositionPrice i current_price hp \<in> set (fst (process_position w pos))"
  from process_position_cases [of w pos] u obtain c fired ptr where q: "quote_events ptr" and
      p: "process_position w pos =
        (ptr @
         [UpdatePositionPrice (pos_id pos) c
            (Some (new_highest (pos_highest_price pos) c))] @
         (case time_based_check w pos fired of
            None \<Rightarrow> []
          | Some t \<Rightarrow> [TriggerAutoSell (pos_id pos) (sell_percentage t) (reason t)]),
         None)"
    by (auto dest: quote_events_not_update)
  from u p q have "current_price = c \<and> hp = Some (new_highest (pos_highest_price pos) c)"
    by (auto dest: quote_events_not_update split: option.splits)
  then show "hp = Some (case pos_highest_price pos of
                   None \<Rightarrow> current_price
                 | Some h \<Rightarrow> max h current_price)"
    by (auto simp: new_highest_max)
next
  show "sorted (monitor_runs stored cycles)" by (rule monitor_runs_sorted)
next
  fix h assume "h \<in> set (monitor_runs (Some h0) cycles)"
  then show "h0 \<le> h" by (rule monitor_runs_lower_bound)
qed

lemma drop_from_high_self: "drop_from_high c c = 0"
  by (simp add: drop_from_high_def)

text \<open>
  Claim C10.  For a monitored position whose current price exceeds the stored highest
  price, or that has no highest price yet, and whose effective trailing threshold is
  positive, no trailing-stop request is made in the cycle: the drop is computed against
  the updated highest price, which is the current price.
\<close>

theorem trailing_stop_silent_at_new_high:
  assumes "monitored w pos config entry_price current_price"
    and "case pos_highest_price pos of None \<Rightarrow> True | Some h \<Rightarrow> h < current_price"
    and "0 < trailing_pct pos config"
  shows "TriggerAutoSell i pct (TrailingStopDropped d) \<notin> set (fst (process_position w pos))"
proof -
  from assms(2) have nh: "new_highest (pos_highest_price pos) current_price = current_price"
    by (auto simp: new_highest_def split: option.splits)
  from process_position_monitored [OF assms(1)] obtain ptr where
    q: "quote_events ptr" and
    p: "process_position w pos =
       (case price_triggers pos config entry_price current_price of
          Inl e \<Rightarrow> (ptr, Some e)
        | Inr fired \<Rightarrow>
            (ptr @
             [UpdatePositionPrice (pos_id pos) current_price
                (Some (new_highest (pos_highest_price pos) current_price))] @
             (case time_based_check w pos fired of
                None \<Rightarrow> []
              | Some t \<Rightarrow> [TriggerAutoSell (pos_id pos) (sell_percentage t) (reason t)]),
             None))" by blast
  have r: "reason t \<noteq> TrailingStopDropped d"
    if "price_triggers pos config entry_price current_price = Inr fired"
       "time_based_check w pos fired = Some t" for fired t
    using that nh assms(3)
    by (auto simp: price_triggers_def time_based_check_def Let_def drop_from_high_self
        split: option.splits if_splits datetime.splits)
  show ?thesis
    using p q r r [THEN not_sym]
    by (auto dest: quote_events_not_trigger split: sum.splits option.splits)
qed

section \<open>The swap executor and its callers\<close>

text \<open>
  \<^verbatim>\<open>execute_swap\<close> is called at lines 425 and 470 only.  A call made by \<^verbatim>\<open>buy_token\<close> or
  \<^verbatim>\<open>sell_token\<close> shows in the trace of the caller as the request \<open>SwapRequest quote\<close>: the
  RPC connection is up by then, so the request for the swap transaction is always made,
  and nothing else in the caller emits such an event.  Both callers have evaluated
  \<^verbatim>\<open>int(quote.get("outAmount", 0))\<close> on the same quote before (lines 422 and 467).
\<close>

lemma quote_events_not_swap: "quote_events tr \<Longrightarrow> SwapRequest q \<notin> set tr"
  by (auto simp: quote_events_def list_all_iff is_quote_request_def is_sleep_def)

lemma submit_swap_requests: "SwapRequest q \<in> set (snd (submit_swap w quote)) \<Longrightarrow> q = quote"
  by (auto simp: submit_swap_def split: option.splits http_outcome.splits sum.splits if_splits)

lemma execute_swap_requests: "SwapRequest q \<in> set (snd (execute_swap w quote)) \<Longrightarrow> q = quote"
proof -
  assume a: "SwapRequest q \<in> set (snd (execute_swap w quote))"
  obtain r tr where s: "submit_swap w quote = (r, tr)" by (cases "submit_swap w quote")
  from a s have "SwapRequest q \<in> set tr"
    by (auto simp: execute_swap_def swap_body_def split: sum.splits prod.splits)
  with s submit_swap_requests [of q w quote] show ?thesis by simp
qed

lemma buy_token_passes_parsable:
  assumes "SwapRequest quote \<in> set (snd (buy_token w contract_address amount_sol slippage_bps))"
  shows "\<exists>n. out_amount quote = Inr n"
proof -
  let ?g = "get_quote (str_repr w) (quote_http w) SOL_MINT contract_address
              (py_trunc (amount_sol * 1000000000)) slippage_bps 3"
  obtain res tr where g: "?g = (res, tr)" by (cases ?g)
  have q: "quote_events tr" using get_quote_events [of "str_repr w" "quote_http w" SOL_MINT
      contract_address "py_trunc (amount_sol * 1000000000)" slippage_bps 3] g by simp
  from assms g q obtain q' n where
    "out_amount q' = Inr n" "SwapRequest quote \<in> set (snd (execute_swap w q'))"
    by (auto simp: buy_token_def Let_def dest: quote_events_not_swap
        split: sum.splits option.splits if_splits prod.splits)
  with execute_swap_requests [of quote w q'] show ?thesis by auto
qed

lemma sell_token_passes_parsable:
  assumes "SwapRequest quote \<in> set (snd (sell_token w contract_address percentage slippage_bps))"
  shows "\<exists>n. out_amount quote = Inr n"
proof -
  have q: "SwapRequest quote \<notin> set tr"
    if "get_quote (str_repr w) (quote_http w) contract_address SOL_MINT amount slippage_bps 3
          = (res, tr)" for amount res tr
    using get_quote_events [of "str_repr w" "quote_http w" contract_address SOL_MINT amount
        slippage_bps 3] that
    by (simp add: quote_events_not_swap)
  from assms obtain q' n where
    "out_amount q' = Inr n" "SwapRequest quote \<in> set (snd (execute_swap w q'))"
    by (auto simp: sell_token_def Let_def dest: q
        split: sum.splits option.splits if_splits prod.splits)
  with execute_swap_requests [of quote w q'] show ?thesis by auto
qed

lemma execute_swap_timeout:
  assumes "fst (submit_swap w quote) = Inr (Inr tx_signature)"
    and "confirm_result w = Some TimeoutError"
    and "out_amount quote = Inr n"
  shows "fst (execute_swap w quote)
        = Inr \<lparr>success = True, signature = Some tx_signature, error = None,
               expected_output = Some n, tokens_received = Some n\<rparr>"
proof -
  from assms(1) have "fst (swap_body w quote) = confirm_swap w quote tx_signature"
    by (rule swap_body_submitted)
  with assms(2,3) show ?thesis
    by (cases "swap_body w quote") (simp add: execute_swap_def confirm_swap_def)
qed

text \<open>
  Claim C8.  \<^verbatim>\<open>execute_swap\<close> always returns a result, on every quote.  An exception
  raised up to and including the submission gives the failed result that carries the
  text of the exception.  In every call that \<^verbatim>\<open>buy_token\<close> or \<^verbatim>\<open>sell_token\<close> makes, when the
  transaction was sent and the confirmation times out, the result is a success that
  carries the signature.
\<close>

theorem execute_swap_never_raises:
  "(\<exists>r. fst (execute_swap w quote) = Inr r) \<and>
   (fst (submit_swap w quote) = Inl e \<longrightarrow>
      fst (execute_swap w quote) = Inr (failure (ExceptionText e))) \<and>
   ((SwapRequest quote \<in> set (snd (buy_token w contract_address amount_sol slippage_bps)) \<or>
     SwapRequest quote \<in> set (snd (sell_token w contract_address percentage slippage_bps))) \<and>
    fst (submit_swap w quote) = Inr (Inr tx_signature) \<and>
    confirm_result w = Some TimeoutError \<longrightarrow>
      (\<exists>n. out_amount quote = Inr n \<and>
           fst (execute_swap w quote)
             = Inr \<lparr>success = True, signature = Some tx_signature, error = None,
                    expected_output = Some n, tokens_received = Some n\<rparr>))"
proof (intro conjI impI)
  show "\<exists>r. fst (execute_swap w quote) = Inr r" by (rule execute_swap_returns)
next
  assume "fst (submit_swap w quote) = Inl e"
  from swap_body_raises [OF this]
  show "fst (execute_swap w quote) = Inr (failure (ExceptionText e))"
    by (cases "swap_body w quote") (simp add: execute_swap_def)
next
  assume a: "(SwapRequest quote \<in> set (snd (buy_token w contract_address amount_sol slippage_bps)) \<or>
     SwapRequest quote \<in> set (snd (sell_token w contract_address percentage slippage_bps))) \<and>
    fst (submit_swap w quote) = Inr (Inr tx_signature) \<and>
    confirm_result w = Some TimeoutError"
  then obtain n where n: "out_amount quote = Inr n"
    using buy_token_passes_parsable sell_token_passes_parsable by blast
  from a execute_swap_timeout [OF _ _ n, of w tx_signature]
  have "fst (execute_swap w quote)
             = Inr \<lparr>success = True, signature = Some tx_signature, error = None,
                    expected_output = Some n, tokens_received = Some n\<rparr>" by simp
  with n show "\<exists>n. out_amount quote = Inr n \<and>
           fst (execute_swap w quote)
             = Inr \<lparr>success = True, signature = Some tx_signature, error = None,
                    expected_output = Some n, tokens_received = Some n\<rparr>" by blast
qed

theorem execute_swap_never_raises_witness:
  "SwapRequest good_quote \<in> set (snd (buy_token buying_env ''MINT'' (1 / 2) 100)) \<and>
   fst (submit_swap buying_env good_quote)
     = Inr (Inr ''5VERv8NMvzbJMEkV8xnrLkEaWRtSz9CosKDYjCJjBRnb'') \<and>
   confirm_result buying_env = Some TimeoutError \<and>
   out_amount good_quote = Inr 2500 \<and>
   fst (execute_swap buying_env good_quote)
     = Inr \<lparr>success = True, signature = Some ''5VERv8NMvzbJMEkV8xnrLkEaWRtSz9CosKDYjCJjBRnb'',
            error = None, expected_output = Some 2500, tokens_received = Some 2500\<rparr> \<and>
   fst (submit_swap (sample_env\<lparr>swap_http := HttpRaised NetworkError\<rparr>) good_quote)
     = Inl NetworkError \<and>
   fst (execute_swap (sample_env\<lparr>swap_http := HttpRaised NetworkError\<rparr>) good_quote)
     = Inr (failure (ExceptionText NetworkError))"
proof -
  have o: "out_amount good_quote = Inr 2500" by code_simp
  have g: "get_quote (str_repr buying_env) (quote_http buying_env) SOL_MINT ''MINT''
             500000000 100 3
           = (Some good_quote, [QuoteRequest SOL_MINT ''MINT'' 500000000 100])"
    by (simp add: get_quote_def numeral_3_eq_3 quote_attempt_def accept_quote_def
        raise_for_status_def response_json_def good_quote_def buying_env_def sample_env_def)
  have s: "fst (submit_swap buying_env good_quote)
     = Inr (Inr ''5VERv8NMvzbJMEkV8xnrLkEaWRtSz9CosKDYjCJjBRnb'')"
    by (simp add: submit_swap_def ensure_rpc_def buying_env_def sample_env_def response_json_def)
  have s': "snd (submit_swap buying_env good_quote) = [SwapRequest good_quote, SendTransaction]"
    by (simp add: submit_swap_def ensure_rpc_def buying_env_def sample_env_def response_json_def)
  have c: "confirm_result buying_env = Some TimeoutError"
    by (simp add: buying_env_def sample_env_def)
  have t: "truthy good_quote" by (simp add: good_quote_def)
  have b: "get_balance buying_env = Inr 2"
    by (simp add: get_balance_def ensure_rpc_def buying_env_def sample_env_def)
  have x: "SwapRequest good_quote \<in> set (snd (execute_swap buying_env good_quote))"
    using s s' by (cases "submit_swap buying_env good_quote")
      (auto simp: execute_swap_def swap_body_def split: sum.splits prod.splits)
  have h: "SwapRequest good_quote \<in> set (snd (buy_token buying_env ''MINT'' (1 / 2) 100))"
    using g o t b x
    by (cases "execute_swap buying_env good_quote") (simp add: buy_token_def py_trunc_def)
  have f: "fst (submit_swap (sample_env\<lparr>swap_http := HttpRaised NetworkError\<rparr>) good_quote)
     = Inl NetworkError"
    by (simp add: submit_swap_def ensure_rpc_def sample_env_def)
  from execute_swap_never_raises
    [where w = buying_env and quote = good_quote and contract_address = "''MINT''"
       and amount_sol = "1 / 2" and slippage_bps = 100
       and tx_signature = "''5VERv8NMvzbJMEkV8xnrLkEaWRtSz9CosKDYjCJjBRnb''"] h s c o
  have 1: "fst (execute_swap buying_env good_quote)
     = Inr \<lparr>success = True, signature = Some ''5VERv8NMvzbJMEkV8xnrLkEaWRtSz9CosKDYjCJjBRnb'',
            error = None, expected_output = Some 2500, tokens_received = Some 2500\<rparr>"
    by simp
  from execute_swap_never_raises
    [where w = "sample_env\<lparr>swap_http := HttpRaised NetworkError\<rparr>" and quote = good_quote
       and e = NetworkError] f
  have 2: "fst (execute_swap (sample_env\<lparr>swap_http := HttpRaised NetworkError\<rparr>) good_quote)
     = Inr (failure (ExceptionText NetworkError))"
    by simp
  from h s c o f 1 2 show ?thesis by simp
qed

section \<open>The monitor on the sample positions\<close>

text \<open>Evaluation of the sample positions.\<close>

lemma alpha_channel: "get_channel_config ''memecoin-alpha'' = alpha_config"
  by code_simp

lemma base_config [simp]:
  "pos_channel_name pos = Value ''memecoin-alpha'' \<Longrightarrow> position_config pos = Inr alpha_config"
  by (simp add: position_config_def alpha_channel)

lemma world_price [simp]: "current_price_of (world_at p) c = (Inr (Some p), [])"
  by (simp add: current_price_of_def world_at_def)

lemmas eval_defs =
  process_position_def evaluate_position_def base_position_def auto_sell_off_def
  price_triggers_def pnl_pct_def new_highest_def trailing_branch_def drop_from_high_def
  trailing_pct_def time_based_check_def alpha_config_def Let_def

lemmas cond_defs =
  monitored_def stop_loss_condition_def trailing_stop_condition_def
  take_profit_1_condition_def take_profit_2_condition_def

theorem monitor_priority_witness:
  "monitored (world_at 2) falling_position alpha_config 1 2 \<and>
   get_or (pos_stop_loss_pct falling_position) (stop_loss_pct alpha_config) = Some (- 25) \<and>
   snd (process_position (world_at 2) falling_position) = None \<and>
   \<not> stop_loss_condition falling_position alpha_config 1 2 \<and>
   trailing_stop_condition falling_position alpha_config 1 2 \<and>
   take_profit_1_condition falling_position alpha_config 1 2 \<and>
   requested_actions (fst (process_position (world_at 2) falling_position)) = [trailing_stop]"
proof -
  have m: "monitored (world_at 2) falling_position alpha_config 1 2"
    by (simp add: monitored_def falling_position_def base_position_def auto_sell_off_def)
  have n: "get_or (pos_stop_loss_pct falling_position) (stop_loss_pct alpha_config) = Some (- 25)"
    by (simp add: falling_position_def base_position_def alpha_config_def)
  have sl: "\<not> stop_loss_condition falling_position alpha_config 1 2"
    by (simp add: cond_defs falling_position_def eval_defs)
  have ts: "trailing_stop_condition falling_position alpha_config 1 2"
    by (simp add: cond_defs falling_position_def eval_defs)
  have tp: "take_profit_1_condition falling_position alpha_config 1 2"
    by (simp add: cond_defs falling_position_def eval_defs)
  from ts tp have sev: "several
     [stop_loss_condition falling_position alpha_config 1 2,
      trailing_stop_condition falling_position alpha_config 1 2,
      take_profit_1_condition falling_position alpha_config 1 2,
      take_profit_2_condition falling_position alpha_config 1 2]"
    by (simp add: several_def)
  from monitor_priority [where w = "world_at 2" and pos = falling_position
      and config = alpha_config and entry_price = 1 and current_price = 2] m n sev sl ts
  have "snd (process_position (world_at 2) falling_position) = None \<and>
    requested_actions (fst (process_position (world_at 2) falling_position)) = [trailing_stop]"
    by (simp add: highest_priority_def)
  with m n sl ts tp show ?thesis by simp
qed

theorem time_based_exit_only_alone_witness:
  "TriggerAutoSell (Some ''trade-1'') 100 TimeBasedTriggered
     \<in> set (fst (process_position timed_world timed_position)) \<and>
   sell_requests (fst (process_position timed_world timed_position))
     = [TriggerAutoSell (Some ''trade-1'') 100 TimeBasedTriggered] \<and>
   fromisoformat timed_world (replace_Z ''2024-01-01T00:00:00Z'') = Some (Aware 1704067200) \<and>
   (1704067200 :: int) \<le> now timed_world"
proof -
  have e: "process_position timed_world timed_position =
      ([UpdatePositionPrice (Some ''trade-1'') (5 / 4) (Some 2),
        TriggerAutoSell (Some ''trade-1'') 100 TimeBasedTriggered], None)"
    by (simp add: timed_world_def timed_position_def world_at_def sample_env_def
        current_price_of_def position_config_def alpha_channel replace_Z_def eval_defs)
  then have h: "TriggerAutoSell (Some ''trade-1'') 100 TimeBasedTriggered
     \<in> set (fst (process_position timed_world timed_position))" by simp
  have f: "fromisoformat timed_world (replace_Z ''2024-01-01T00:00:00Z'') = Some (Aware 1704067200)"
    by (simp add: timed_world_def replace_Z_def)
  have n: "(1704067200 :: int) \<le> now timed_world" by (simp add: timed_world_def)
  from time_based_exit_only_alone [OF h] h f n show ?thesis by simp
qed

theorem highest_price_monotone_witness:
  "UpdatePositionPrice (Some ''trade-1'') 3 (Some 3)
     \<in> set (fst (process_position (world_at 3) base_position)) \<and>
   Some (3 :: real) = Some (case pos_highest_price base_position of
                              None \<Rightarrow> 3 | Some h \<Rightarrow> max h 3) \<and>
   monitor_runs (Some 2) [(world_at (3 / 2), base_position), (world_at 3, base_position),
                           (world_at (5 / 2), base_position)] = [2, 3, 3] \<and>
   sorted (monitor_runs (Some 2) [(world_at (3 / 2), base_position), (world_at 3, base_position),
                                   (world_at (5 / 2), base_position)])"
proof -
  have u: "UpdatePositionPrice (Some ''trade-1'') 3 (Some 3)
     \<in> set (fst (process_position (world_at 3) base_position))"
    by (simp add: eval_defs)
  have r: "monitor_runs (Some 2) [(world_at (3 / 2), base_position), (world_at 3, base_position),
                           (world_at (5 / 2), base_position)] = [2, 3, 3]"
    by (simp add: eval_defs)
  from highest_price_monotone [where w = "world_at 3" and pos = base_position
      and i = "Some ''trade-1''" and current_price = 3 and hp = "Some 3" and stored = "Some 2"
      and cycles = "[(world_at (3 / 2), base_position), (world_at 3, base_position),
                           (world_at (5 / 2), base_position)]"] u r
  show ?thesis by simp
qed

theorem trailing_stop_silent_at_new_high_witness:
  "monitored (world_at 3) base_position alpha_config 1 3 \<and>
   pos_highest_price base_position = Some 2 \<and> (2 :: real) < 3 \<and>
   0 < trailing_pct base_position alpha_config \<and>
   TriggerAutoSell (Some ''trade-1'') 100 (TrailingStopDropped 0)
     \<notin> set (fst (process_position (world_at 3) base_position))"
proof -
  have m: "monitored (world_at 3) base_position alpha_config 1 3"
    by (simp add: monitored_def base_position_def auto_sell_off_def)
  have h: "case pos_highest_price base_position of None \<Rightarrow> True | Some h \<Rightarrow> h < 3"
    by (simp add: base_position_def)
  have t: "0 < trailing_pct base_position alpha_config"
    by (simp add: trailing_pct_def base_position_def)
  from trailing_stop_silent_at_new_high [OF m h t, of "Some ''trade-1''" 100 0] m t
  show ?thesis by (simp add: base_position_def)
qed

text \<open>
  Claim C1 fails on the code.  The position is bought at 1, has reached 4 and is priced at
  2: the trailing-stop condition (a drop of 50 percent against a threshold of 15) and the
  TP1 condition (\<open>pnl_pct\<close> is 100) hold together, and trailing-stop has the priority.  Its
  stop-loss override is stored as \<^verbatim>\<open>null\<close>, so the comparison of line 652 raises
  \<^verbatim>\<open>TypeError\<close> before any trigger is chosen: the cycle requests nothing for the position.
\<close>

theorem priority_lost_on_null_stop_loss:
  "monitored (world_at 2) null_falling_position alpha_config 1 2 \<and>
   trailing_stop_condition null_falling_position alpha_config 1 2 \<and>
   take_profit_1_condition null_falling_position alpha_config 1 2 \<and>
   several [stop_loss_condition null_falling_position alpha_config 1 2,
            trailing_stop_condition null_falling_position alpha_config 1 2,
            take_profit_1_condition null_falling_position alpha_config 1 2,
            take_profit_2_condition null_falling_position alpha_config 1 2] \<and>
   highest_priority
     (stop_loss_condition null_falling_position alpha_config 1 2)
     (trailing_stop_condition null_falling_position alpha_config 1 2)
     (take_profit_1_condition null_falling_position alpha_config 1 2)
     (take_profit_2_condition null_falling_position alpha_config 1 2) = trailing_stop \<and>
   process_position (world_at 2) null_falling_position = ([], Some TypeError) \<and>
   requested_actions (fst (process_position (world_at 2) null_falling_position)) = []"
  by (simp add: cond_defs eval_defs null_falling_position_def falling_position_def
      several_def highest_priority_def)

text \<open>
  Claim C2 fails on the code.  The sample position is bought at 1 and priced at 2, so
  \<open>pnl_pct\<close> is 100 and reaches the TP1 threshold of its channel; the stop-loss and the
  trailing-stop conditions do not hold.  Yet the branch of line 659 is entered (trailing
  enabled, in profit), the drop from the high is 0, and the \<^verbatim>\<open>elif\<close> of line 670 is never
  evaluated: the cycle reports the price and requests no sell.
\<close>

theorem take_profit_1_blocked_by_trailing_branch:
  "monitored (world_at 2) base_position alpha_config 1 2 \<and>
   pnl_pct 2 1 = 100 \<and>
   \<not> stop_loss_condition base_position alpha_config 1 2 \<and>
   \<not> trailing_stop_condition base_position alpha_config 1 2 \<and>
   take_profit_1_condition base_position alpha_config 1 2 \<and>
   process_position (world_at 2) base_position
     = ([UpdatePositionPrice (Some ''trade-1'') 2 (Some 2)], None) \<and>
   sell_requests (fst (process_position (world_at 2) base_position)) = []"
  by (simp add: cond_defs eval_defs sell_requests_def is_sell_request_def)

text \<open>
  Claim C5 fails on the code.  The first position stores \<^verbatim>\<open>stop_loss_pct = null\<close>, so line
  652 raises \<^verbatim>\<open>TypeError\<close>; the only handler is the one around the whole cycle (line 719).
  The second position, whose stop-loss is hit, is processed when it is alone in the
  cycle and is never reached when it follows the first.
\<close>

theorem monitor_cycle_aborted_by_one_position:
  "process_position (world_at 2) null_stop_loss_position = ([], Some TypeError) \<and>
   process_position (world_at (1 / 2)) losing_position
     = ([UpdatePositionPrice (Some ''trade-2'') (1 / 2) (Some 1),
         TriggerAutoSell (Some ''trade-2'') 100 (StopLossHit (- 50))], None) \<and>
   monitor_cycle [(world_at 2, null_stop_loss_position), (world_at (1 / 2), losing_position)]
     = [LogMonitorError TypeError, Sleep 30] \<and>
   monitor_cycle [(world_at (1 / 2), losing_position)]
     = [UpdatePositionPrice (Some ''trade-2'') (1 / 2) (Some 1),
        TriggerAutoSell (Some ''trade-2'') 100 (StopLossHit (- 50)),
        Sleep 5]"
  by (simp add: monitor_cycle_def null_stop_loss_position_def losing_position_def
      POSITION_CHECK_INTERVAL_def eval_defs)

end
